theory Spec2Isabelle
  imports Main "HOL-Library.Sublist" "HOL-Library.Product_Lexorder"
begin

section \<open>Electronic health record client: data model\<close>

text \<open>
  The repository is a browser client (React pages) over a relational store whose schema,
  row-level policies and sign-up trigger are the SQL migration. The tables of the
  migration are modelled as lists of rows, the policies as predicates on a row and the
  caller's identity, the pages' queries as functions from the store to the rows the store
  returns, and the pages' event handlers as functions on the page state.

  Identifiers are the text the client sees (\<open>uuid\<close> values as strings). A nullable column
  is an \<open>option\<close>. Columns that no modelled operation reads (demographics, licence
  number, time stamps) are left out of the rows.
\<close>

type_synonym uuid = string

text \<open>\<open>public.profiles\<close>: \<open>user_id\<close> is UNIQUE and references the identity provider's user.\<close>

record profile =
  id' :: uuid
  user_id :: uuid
  full_name :: string
  email :: string
  role :: string

text \<open>\<open>public.patients\<close> and \<open>public.doctors\<close>: each row references its owning profile.\<close>

record patient =
  id' :: uuid
  profile_id :: uuid

record doctor =
  id' :: uuid
  profile_id :: uuid
  specialization :: string

text \<open>
  \<open>public.appointments\<close>. A \<open>DATE\<close> is the day number and a \<open>TIME\<close> the time of day in
  microseconds, the values the store orders by.
\<close>

record appointment =
  id' :: uuid
  patient_id :: uuid
  doctor_id :: uuid
  appointment_date :: int
  appointment_time :: nat
  duration_minutes :: int
  status :: string
  reason :: "string option"
  notes' :: "string option"

text \<open>\<open>public.medical_records\<close>.\<close>

record medical_record =
  id' :: uuid
  patient_id :: uuid
  doctor_id :: uuid
  appointment_id :: "uuid option"
  record_date :: int
  diagnosis :: "string option"
  symptoms :: "string option"
  treatment :: "string option"
  medications :: "string option"
  lab_results :: "string option"
  notes' :: "string option"

record db =
  profiles :: "profile list"
  patients :: "patient list"
  doctors :: "doctor list"
  appointments :: "appointment list"
  medical_records :: "medical_record list"

text \<open>
  What \<open>useAuth()\<close> gives a page: the signed-in user's id, which the store reads back as
  \<open>auth.uid()\<close>, and the profile the context resolved for it (\<open>userProfile\<close>, undefined
  while it is not loaded).
\<close>

record session =
  uid :: uuid
  userProfile :: "profile option"

text \<open>\<open>userProfile?.role === r\<close>: false when the profile is undefined.\<close>

definition role_is :: "session \<Rightarrow> string \<Rightarrow> bool" where
  "role_is s r = (case userProfile s of None \<Rightarrow> False | Some p \<Rightarrow> role p = r)"


section \<open>Sidebar: the role-aware menu\<close>

record menu_item =
  path :: string
  label :: string

text \<open>\<open>Array.prototype.splice(start, deleteCount)\<close> with both arguments in range.\<close>

definition splice :: "nat \<Rightarrow> nat \<Rightarrow> 'a list \<Rightarrow> 'a list" where
  "splice start deleteCount xs = take start xs @ drop (start + deleteCount) xs"

definition allMenuItems :: "menu_item list" where
  "allMenuItems =
     [\<lparr>path = ''/'', label = ''Dashboard''\<rparr>,
      \<lparr>path = ''/patients'', label = ''Patients''\<rparr>,
      \<lparr>path = ''/doctors'', label = ''Doctors''\<rparr>,
      \<lparr>path = ''/appointments'', label = ''Appointments''\<rparr>,
      \<lparr>path = ''/medical-records'', label = ''Medical Records''\<rparr>]"

definition menuItems :: "session \<Rightarrow> menu_item list" where
  "menuItems s =
     (let m0 = allMenuItems;
          m1 = (if role_is s ''doctor'' then splice 2 1 m0 else m0);
          m2 = (if role_is s ''patient'' then splice 1 2 m1 else m1)
      in m2)"


section \<open>The store: row-level policies\<close>

text \<open>
  Row-level security is enabled on all five tables, so a caller reads a row only when one
  of the table's SELECT policies admits it (the policies of one table are permissive:
  they are OR-ed). The pages reach the store with the public key and the signed-in user's
  token, never as the tables' owner, so the policies apply to every table a request
  touches: the table it selects from, each resource it embeds, and each table a policy's
  own subquery reads. \<open>u\<close> is \<open>auth.uid()\<close>, the caller.
\<close>

text \<open>"Users can view their own profile": \<open>auth.uid() = user_id\<close>.\<close>

definition profiles_select :: "uuid \<Rightarrow> db \<Rightarrow> profile \<Rightarrow> bool" where
  "profiles_select u d p = (u = user_id p)"

definition visible_profiles :: "uuid \<Rightarrow> db \<Rightarrow> profile list" where
  "visible_profiles u d = filter (profiles_select u d) (profiles d)"

text \<open>"Everyone can view doctors": \<open>USING (true)\<close>.\<close>

definition doctors_select :: "uuid \<Rightarrow> db \<Rightarrow> doctor \<Rightarrow> bool" where
  "doctors_select u d dr = True"

definition visible_doctors :: "uuid \<Rightarrow> db \<Rightarrow> doctor list" where
  "visible_doctors u d = filter (doctors_select u d) (doctors d)"

text \<open>
  \<open>public.patients\<close>: "Patients can view their own data", "Doctors can view their patients"
  (any caller who has a doctor-role profile with a doctors row), "Admins can view all
  patients".
\<close>

definition patients_select :: "uuid \<Rightarrow> db \<Rightarrow> patient \<Rightarrow> bool" where
  "patients_select u d pt =
     ((\<exists>prof \<in> set (visible_profiles u d).
          profile.id' prof = patient.profile_id pt \<and> user_id prof = u)
      \<or> (\<exists>p1 \<in> set (visible_profiles u d). \<exists>dr \<in> set (visible_doctors u d).
          profile.id' p1 = doctor.profile_id dr \<and> user_id p1 = u \<and> role p1 = ''doctor'')
      \<or> (\<exists>prof \<in> set (visible_profiles u d). user_id prof = u \<and> role prof = ''admin''))"

definition visible_patients :: "uuid \<Rightarrow> db \<Rightarrow> patient list" where
  "visible_patients u d = filter (patients_select u d) (patients d)"

text \<open>
  \<open>public.appointments\<close>: "Patients can view their appointments" and "Doctors can view
  their appointments". The table has no policy for admins.
\<close>

definition appointments_select :: "uuid \<Rightarrow> db \<Rightarrow> appointment \<Rightarrow> bool" where
  "appointments_select u d a =
     ((\<exists>p \<in> set (visible_patients u d). \<exists>prof \<in> set (visible_profiles u d).
          patient.profile_id p = profile.id' prof
          \<and> patient.id' p = appointment.patient_id a \<and> user_id prof = u)
      \<or> (\<exists>dr \<in> set (visible_doctors u d). \<exists>prof \<in> set (visible_profiles u d).
          doctor.profile_id dr = profile.id' prof
          \<and> doctor.id' dr = appointment.doctor_id a \<and> user_id prof = u))"

definition visible_appointments :: "uuid \<Rightarrow> db \<Rightarrow> appointment list" where
  "visible_appointments u d = filter (appointments_select u d) (appointments d)"

text \<open>
  \<open>public.medical_records\<close>: "Patients can view their medical records" and "Doctors can
  view medical records for their patients" (the records whose \<open>doctor_id\<close> is theirs).
\<close>

definition medical_records_select :: "uuid \<Rightarrow> db \<Rightarrow> medical_record \<Rightarrow> bool" where
  "medical_records_select u d r =
     ((\<exists>p \<in> set (visible_patients u d). \<exists>prof \<in> set (visible_profiles u d).
          patient.profile_id p = profile.id' prof
          \<and> patient.id' p = medical_record.patient_id r \<and> user_id prof = u)
      \<or> (\<exists>dr \<in> set (visible_doctors u d). \<exists>prof \<in> set (visible_profiles u d).
          doctor.profile_id dr = profile.id' prof
          \<and> doctor.id' dr = medical_record.doctor_id r \<and> user_id prof = u))"

definition visible_medical_records :: "uuid \<Rightarrow> db \<Rightarrow> medical_record list" where
  "visible_medical_records u d = filter (medical_records_select u d) (medical_records d)"


section \<open>The store: the queries the pages send\<close>

text \<open>
  \<open>.single()\<close> gives the row when the request matches exactly one, and no data (with an
  error in the result, nothing thrown) when it matches none or several.
\<close>

definition single :: "'a list \<Rightarrow> 'a option" where
  "single rows = (case rows of [r] \<Rightarrow> Some r | _ \<Rightarrow> None)"

text \<open>
  \<open>from('doctors').select('id').eq('profile_id', userProfile?.id).single()\<close> and the same
  request on \<open>patients\<close>. With no profile the filter value is undefined and the request
  yields no data.
\<close>

definition own_doctor :: "session \<Rightarrow> db \<Rightarrow> doctor option" where
  "own_doctor s d =
     (case userProfile s of
        None \<Rightarrow> None
      | Some up \<Rightarrow>
          single (filter (\<lambda>dr. doctor.profile_id dr = profile.id' up) (visible_doctors (uid s) d)))"

definition own_patient :: "session \<Rightarrow> db \<Rightarrow> patient option" where
  "own_patient s d =
     (case userProfile s of
        None \<Rightarrow> None
      | Some up \<Rightarrow>
          single (filter (\<lambda>pt. patient.profile_id pt = profile.id' up) (visible_patients (uid s) d)))"

text \<open>
  Embedded resources. \<open>patients!inner(profiles!inner(full_name))\<close> joins the row's patient
  and that patient's profile, each read under its table's policies; \<open>!inner\<close> drops the row
  when the embedded resource is empty. \<open>doctors!inner(profiles!inner(full_name),
  specialization)\<close> is the same on the doctor's side.
\<close>

definition embed_patients :: "uuid \<Rightarrow> db \<Rightarrow> uuid \<Rightarrow> (patient \<times> profile) option" where
  "embed_patients u d pid =
     (case find (\<lambda>pt. patient.id' pt = pid) (visible_patients u d) of
        None \<Rightarrow> None
      | Some pt \<Rightarrow>
          (case find (\<lambda>p. profile.id' p = patient.profile_id pt) (visible_profiles u d) of
             None \<Rightarrow> None
           | Some p \<Rightarrow> Some (pt, p)))"

definition embed_doctors :: "uuid \<Rightarrow> db \<Rightarrow> uuid \<Rightarrow> (doctor \<times> profile) option" where
  "embed_doctors u d did =
     (case find (\<lambda>dr. doctor.id' dr = did) (visible_doctors u d) of
        None \<Rightarrow> None
      | Some dr \<Rightarrow>
          (case find (\<lambda>p. profile.id' p = doctor.profile_id dr) (visible_profiles u d) of
             None \<Rightarrow> None
           | Some p \<Rightarrow> Some (dr, p)))"

text \<open>The \<open>Appointment\<close> interface of the Appointments page: the row and its two embeds.\<close>

record appointment_view =
  row :: appointment
  patients_full_name :: string
  doctors_full_name :: string
  doctors_specialization :: string

definition join_appointment :: "uuid \<Rightarrow> db \<Rightarrow> appointment \<Rightarrow> appointment_view option" where
  "join_appointment u d a =
     (case embed_patients u d (appointment.patient_id a) of
        None \<Rightarrow> None
      | Some (pt, pp) \<Rightarrow>
          (case embed_doctors u d (appointment.doctor_id a) of
             None \<Rightarrow> None
           | Some (dr, dp) \<Rightarrow>
               Some \<lparr>row = a, patients_full_name = full_name pp,
                     doctors_full_name = full_name dp,
                     doctors_specialization = specialization dr\<rparr>))"

text \<open>
  The list request of \<open>fetchAppointments\<close>: the select with both embeds, the \<open>.eq\<close>
  filter the page added (if any), ordered by \<open>appointment_date\<close> then \<open>appointment_time\<close>,
  both ascending.
\<close>

definition select_appointments ::
  "uuid \<Rightarrow> db \<Rightarrow> (appointment \<Rightarrow> bool) \<Rightarrow> appointment_view list" where
  "select_appointments u d eq_filter =
     sort_key (\<lambda>v. (appointment_date (row v), appointment_time (row v)))
       (List.map_filter (join_appointment u d) (filter eq_filter (visible_appointments u d)))"

text \<open>The \<open>MedicalRecord\<close> interface of the Medical Records page.\<close>

record medical_record_view =
  rec :: medical_record
  patients_full_name :: string
  doctors_full_name :: string
  doctors_specialization :: string

definition join_medical_record ::
  "uuid \<Rightarrow> db \<Rightarrow> medical_record \<Rightarrow> medical_record_view option" where
  "join_medical_record u d r =
     (case embed_patients u d (medical_record.patient_id r) of
        None \<Rightarrow> None
      | Some (pt, pp) \<Rightarrow>
          (case embed_doctors u d (medical_record.doctor_id r) of
             None \<Rightarrow> None
           | Some (dr, dp) \<Rightarrow>
               Some \<lparr>rec = r, patients_full_name = full_name pp,
                     doctors_full_name = full_name dp,
                     doctors_specialization = specialization dr\<rparr>))"

text \<open>\<open>fetchMedicalRecords\<close> orders by \<open>record_date\<close>, descending.\<close>

definition select_medical_records ::
  "uuid \<Rightarrow> db \<Rightarrow> (medical_record \<Rightarrow> bool) \<Rightarrow> medical_record_view list" where
  "select_medical_records u d eq_filter =
     rev (sort_key (\<lambda>v. record_date (rec v))
       (List.map_filter (join_medical_record u d) (filter eq_filter (visible_medical_records u d))))"


section \<open>Effects of a handler\<close>

text \<open>
  A handler changes the page state, sends requests to the store, raises notifications
  (\<open>toast\<close>) and writes to the console. The state change is the handler's result; the
  rest is the list of effects it returns, in the order the code performs them.

  The store's verdict on a write (a constraint violation, a policy denial, a lost
  connection, or the new contents) is not the client's code: a handler takes it as a
  function from the request and the store to an error or the store after the write.
\<close>

text \<open>The object passed to \<open>from('appointments').insert\<close>.\<close>

record appointment_insert =
  patient_id :: string
  doctor_id :: string
  appointment_date :: string
  appointment_time :: string
  duration_minutes :: "int option"
  reason :: string
  notes' :: string
  status :: string

text \<open>The object passed to \<open>from('medical_records').insert\<close>.\<close>

record medical_record_insert =
  patient_id :: string
  doctor_id :: string
  appointment_id :: "string option"
  record_date :: string
  diagnosis :: string
  symptoms :: string
  treatment :: string
  medications :: string
  lab_results :: string
  notes' :: string

datatype store_call =
    Select_from string
  | Insert_appointments appointment_insert
  | Update_appointments_status uuid string
  | Insert_medical_records medical_record_insert

datatype effect =
    Store store_call
  | Toast_success string
  | Toast_error string
  | Toast_info string
  | Console_error string

type_synonym store_error = string


section \<open>Appointments page\<close>

record appointment_form =
  patientId :: string
  doctorId :: string
  appointmentDate :: string
  appointmentTime :: string
  duration :: string
  reason :: string
  notes' :: string

text \<open>
  The \<open>useState\<close> cells of the page. \<open>doctors\<close> and \<open>patients\<close> are the choices of the
  form's selects (id and display name).
\<close>

record appointments_page =
  appointments :: "appointment_view list"
  doctors :: "(uuid \<times> string) list"
  patients :: "(uuid \<times> string) list"
  loading :: bool
  searchTerm :: string
  statusFilter :: string
  isDialogOpen :: bool
  appointmentForm :: appointment_form

definition emptyAppointmentForm :: appointment_form where
  "emptyAppointmentForm =
     \<lparr>patientId = [], doctorId = [], appointmentDate = [], appointmentTime = [],
      duration = ''30'', reason = [], notes' = []\<rparr>"

definition Appointments_resetForm :: "appointments_page \<Rightarrow> appointments_page" where
  "Appointments_resetForm pg = pg\<lparr>appointmentForm := emptyAppointmentForm\<rparr>"

text \<open>
  \<open>fetchAppointments\<close>. The \<open>.eq\<close> filter depends on the role; it is added only when the
  caller's doctors (patients) row was found. \<open>ok\<close> tells whether the list request came
  back without an error; on an error the list is left as it was.
\<close>

definition appointments_eq_filter :: "session \<Rightarrow> db \<Rightarrow> appointment \<Rightarrow> bool" where
  "appointments_eq_filter s d =
     (if role_is s ''doctor'' then
        (case own_doctor s d of
           Some dr \<Rightarrow> (\<lambda>a. appointment.doctor_id a = doctor.id' dr)
         | None \<Rightarrow> (\<lambda>a. True))
      else if role_is s ''patient'' then
        (case own_patient s d of
           Some pt \<Rightarrow> (\<lambda>a. appointment.patient_id a = patient.id' pt)
         | None \<Rightarrow> (\<lambda>a. True))
      else (\<lambda>a. True))"

definition role_probe :: "session \<Rightarrow> effect list" where
  "role_probe s =
     (if role_is s ''doctor'' then [Store (Select_from ''doctors'')]
      else if role_is s ''patient'' then [Store (Select_from ''patients'')]
      else [])"

definition fetchAppointments ::
  "bool \<Rightarrow> db \<Rightarrow> session \<Rightarrow> appointments_page \<Rightarrow> appointments_page \<times> effect list" where
  "fetchAppointments ok d s pg =
     (if ok then
        (pg\<lparr>appointments := select_appointments (uid s) d (appointments_eq_filter s d),
            loading := False\<rparr>,
         role_probe s @ [Store (Select_from ''appointments'')])
      else
        (pg\<lparr>loading := False\<rparr>,
         role_probe s @ [Store (Select_from ''appointments''),
           Console_error ''Error fetching appointments:'',
           Toast_error ''Failed to load appointments'']))"

text \<open>
  \<open>parseInt\<close> on the form's duration, for an optional sign followed by decimal digits
  (the select offers 15, 30, 45 and 60); \<open>None\<close> is NaN.
\<close>

definition digit_val :: "char \<Rightarrow> nat option" where
  "digit_val c =
     (let n = (of_char c :: nat) in if 48 \<le> n \<and> n \<le> 57 then Some (n - 48) else None)"

fun parse_digits :: "nat option \<Rightarrow> string \<Rightarrow> nat option" where
  "parse_digits acc [] = acc"
| "parse_digits acc (c # cs) =
     (case digit_val c of
        None \<Rightarrow> acc
      | Some v \<Rightarrow> parse_digits (Some ((case acc of None \<Rightarrow> 0 | Some a \<Rightarrow> 10 * a) + v)) cs)"

definition parseInt :: "string \<Rightarrow> int option" where
  "parseInt str =
     (case str of
        c # cs \<Rightarrow>
          (if c = CHR ''-'' then map_option (\<lambda>n. - int n) (parse_digits None cs)
           else if c = CHR ''+'' then map_option int (parse_digits None cs)
           else map_option int (parse_digits None str))
      | [] \<Rightarrow> None)"

text \<open>
  The object \<open>handleSubmit\<close> inserts. A patient books for their own patients row when it
  is found; everyone else (and a patient without a row) sends the form's patient.
\<close>

definition appointment_payload :: "session \<Rightarrow> db \<Rightarrow> appointment_form \<Rightarrow> appointment_insert" where
  "appointment_payload s d f =
     (let patientId0 = patientId f;
          patientId1 =
            (if role_is s ''patient'' then
               (case own_patient s d of Some pt \<Rightarrow> patient.id' pt | None \<Rightarrow> patientId0)
             else patientId0)
      in \<lparr>appointment_insert.patient_id = patientId1,
          appointment_insert.doctor_id = doctorId f,
          appointment_insert.appointment_date = appointmentDate f,
          appointment_insert.appointment_time = appointmentTime f,
          appointment_insert.duration_minutes = parseInt (duration f),
          appointment_insert.reason = appointment_form.reason f,
          appointment_insert.notes' = appointment_form.notes' f,
          appointment_insert.status = ''scheduled''\<rparr>)"

definition Appointments_handleSubmit ::
  "(appointment_insert \<Rightarrow> db \<Rightarrow> store_error + db) \<Rightarrow> bool \<Rightarrow> session \<Rightarrow> db
     \<Rightarrow> appointments_page \<Rightarrow> db \<times> appointments_page \<times> effect list" where
  "Appointments_handleSubmit ins ok s d pg =
     (let payload = appointment_payload s d (appointmentForm pg);
          probe = (if role_is s ''patient'' then [Store (Select_from ''patients'')] else [])
      in case ins payload d of
           Inl err \<Rightarrow>
             (d, pg,
              probe @ [Store (Insert_appointments payload),
                Console_error ''Error creating appointment:'',
                Toast_error ''Failed to schedule appointment''])
         | Inr d' \<Rightarrow>
             (let (pg', fetched) =
                    fetchAppointments ok d' s (Appointments_resetForm (pg\<lparr>isDialogOpen := False\<rparr>))
              in (d', pg',
                  probe @ [Store (Insert_appointments payload),
                    Toast_success ''Appointment scheduled successfully''] @ fetched)))"

definition updateAppointmentStatus ::
  "(uuid \<Rightarrow> string \<Rightarrow> db \<Rightarrow> store_error + db) \<Rightarrow> bool \<Rightarrow> session \<Rightarrow> uuid \<Rightarrow> string \<Rightarrow> db
     \<Rightarrow> appointments_page \<Rightarrow> db \<times> appointments_page \<times> effect list" where
  "updateAppointmentStatus upd ok s appointmentId newStatus d pg =
     (case upd appointmentId newStatus d of
        Inl err \<Rightarrow>
          (d, pg,
           [Store (Update_appointments_status appointmentId newStatus),
            Console_error ''Error updating appointment:'',
            Toast_error ''Failed to update appointment''])
      | Inr d' \<Rightarrow>
          (let (pg', fetched) = fetchAppointments ok d' s pg
           in (d', pg',
               [Store (Update_appointments_status appointmentId newStatus),
                Toast_success (''Appointment '' @ newStatus @ '' successfully'')] @ fetched)))"


text \<open>
  The search box and the status filter. \<open>toLowerCase\<close> is modelled on ASCII text (the
  letters A to Z); \<open>includes_str hay needle\<close> is \<open>hay.includes(needle)\<close>, scanning \<open>hay\<close>
  for a position where \<open>needle\<close> starts. A null \<open>reason\<close> makes \<open>reason?.toLowerCase()\<close>
  undefined, which counts as no match.
\<close>

definition toLowerCase_char :: "char \<Rightarrow> char" where
  "toLowerCase_char c =
     (let n = (of_char c :: nat) in if 65 \<le> n \<and> n \<le> 90 then char_of (n + 32) else c)"

definition toLowerCase :: "string \<Rightarrow> string" where
  "toLowerCase str = map toLowerCase_char str"

fun includes_str :: "string \<Rightarrow> string \<Rightarrow> bool" where
  "includes_str [] needle = (needle = [])"
| "includes_str (h # hs) needle = (prefix needle (h # hs) \<or> includes_str hs needle)"

definition matchesSearch :: "string \<Rightarrow> appointment_view \<Rightarrow> bool" where
  "matchesSearch term a =
     (includes_str (toLowerCase (appointment_view.patients_full_name a)) (toLowerCase term)
      \<or> includes_str (toLowerCase (appointment_view.doctors_full_name a)) (toLowerCase term)
      \<or> (case appointment.reason (row a) of
            None \<Rightarrow> False
          | Some r \<Rightarrow> includes_str (toLowerCase r) (toLowerCase term)))"

definition matchesStatus :: "string \<Rightarrow> appointment_view \<Rightarrow> bool" where
  "matchesStatus flt a = (flt = ''all'' \<or> appointment.status (row a) = flt)"

definition filteredAppointments ::
  "appointment_view list \<Rightarrow> string \<Rightarrow> string \<Rightarrow> appointment_view list" where
  "filteredAppointments appts term flt =
     filter (\<lambda>a. matchesSearch term a \<and> matchesStatus flt a) appts"

text \<open>
  Follows the spec's words: \<open>needle\<close> is a case-insensitive substring of \<open>hay\<close> when the
  lower-cased \<open>needle\<close> occurs somewhere inside the lower-cased \<open>hay\<close>.
\<close>

definition ci_substring :: "string \<Rightarrow> string \<Rightarrow> bool" where
  "ci_substring needle hay = (\<exists>before after. toLowerCase hay = before @ toLowerCase needle @ after)"

text \<open>
  The status buttons of a card: rendered for a doctor or an admin on a row whose status is
  \<open>scheduled\<close>; each calls \<open>updateAppointmentStatus\<close> with the row's id and the status
  listed here.
\<close>

definition statusButtons :: "session \<Rightarrow> appointment_view \<Rightarrow> string list" where
  "statusButtons s a =
     (if (role_is s ''doctor'' \<or> role_is s ''admin'') \<and> appointment.status (row a) = ''scheduled''
      then [''completed'', ''cancelled''] else [])"

text \<open>
  What the user can trigger on the page that reaches the store with a write: submitting
  the form (rendered inside the open dialog) and pressing a status button of a listed
  card (the list is replaced by a spinner while loading).
\<close>

datatype appointments_action = Submit_form | Click_status uuid string

definition offered_actions :: "session \<Rightarrow> appointments_page \<Rightarrow> appointments_action list" where
  "offered_actions s pg =
     (if isDialogOpen pg then [Submit_form] else [])
     @ (if loading pg then []
        else concat (map (\<lambda>a. map (Click_status (appointment.id' (row a))) (statusButtons s a))
               (filteredAppointments (appointments_page.appointments pg)
                  (searchTerm pg) (statusFilter pg))))"

definition Appointments_perform ::
  "(appointment_insert \<Rightarrow> db \<Rightarrow> store_error + db) \<Rightarrow> (uuid \<Rightarrow> string \<Rightarrow> db \<Rightarrow> store_error + db)
     \<Rightarrow> bool \<Rightarrow> session \<Rightarrow> appointments_action \<Rightarrow> db \<Rightarrow> appointments_page
     \<Rightarrow> db \<times> appointments_page \<times> effect list" where
  "Appointments_perform ins upd ok s act d pg =
     (case act of
        Submit_form \<Rightarrow> Appointments_handleSubmit ins ok s d pg
      | Click_status i newStatus \<Rightarrow> updateAppointmentStatus upd ok s i newStatus d pg)"


section \<open>Medical Records page\<close>

record record_form =
  patientId :: string
  appointmentId :: string
  recordDate :: string
  diagnosis :: string
  symptoms :: string
  treatment :: string
  medications :: string
  labResults :: string
  notes' :: string

text \<open>An entry of the form's patient select: \<open>patients!inner(id, profiles!inner(full_name))\<close>.\<close>

record patient_option =
  id' :: uuid
  full_name :: string

text \<open>An entry of the form's appointment select.\<close>

record appointment_option =
  id' :: uuid
  appointment_date :: int
  appointment_time :: nat
  patients :: patient_option

record medical_records_page =
  records :: "medical_record_view list"
  appointments :: "appointment_option list"
  patients :: "patient_option list"
  loading :: bool
  searchTerm :: string
  isDialogOpen :: bool
  recordForm :: record_form

text \<open>\<open>resetForm\<close> sets the record date to today's date, which the caller supplies.\<close>

definition MedicalRecords_resetForm :: "string \<Rightarrow> medical_records_page \<Rightarrow> medical_records_page" where
  "MedicalRecords_resetForm today pg =
     pg\<lparr>recordForm :=
          \<lparr>record_form.patientId = [], appointmentId = [], recordDate = today,
           diagnosis = [], symptoms = [], treatment = [], medications = [],
           labResults = [], notes' = []\<rparr>\<rparr>"

definition medical_records_eq_filter :: "session \<Rightarrow> db \<Rightarrow> medical_record \<Rightarrow> bool" where
  "medical_records_eq_filter s d =
     (if role_is s ''doctor'' then
        (case own_doctor s d of
           Some dr \<Rightarrow> (\<lambda>r. medical_record.doctor_id r = doctor.id' dr)
         | None \<Rightarrow> (\<lambda>r. True))
      else if role_is s ''patient'' then
        (case own_patient s d of
           Some pt \<Rightarrow> (\<lambda>r. medical_record.patient_id r = patient.id' pt)
         | None \<Rightarrow> (\<lambda>r. True))
      else (\<lambda>r. True))"

definition fetchMedicalRecords ::
  "bool \<Rightarrow> db \<Rightarrow> session \<Rightarrow> medical_records_page \<Rightarrow> medical_records_page \<times> effect list" where
  "fetchMedicalRecords ok d s pg =
     (if ok then
        (pg\<lparr>records := select_medical_records (uid s) d (medical_records_eq_filter s d),
            medical_records_page.loading := False\<rparr>,
         role_probe s @ [Store (Select_from ''medical_records'')])
      else
        (pg\<lparr>medical_records_page.loading := False\<rparr>,
         role_probe s @ [Store (Select_from ''medical_records''),
           Console_error ''Error fetching medical records:'',
           Toast_error ''Failed to load medical records'']))"

text \<open>
  \<open>new Map(entries)\<close> keeps one entry per key, at the position where the key first
  occurred and with the value set last; \<open>Array.from(map.values())\<close> lists the values.
\<close>

fun Map_set :: "('k \<times> 'v) list \<Rightarrow> 'k \<Rightarrow> 'v \<Rightarrow> ('k \<times> 'v) list" where
  "Map_set [] k v = [(k, v)]"
| "Map_set ((k', v') # m) k v = (if k' = k then (k, v) # m else (k', v') # Map_set m k v)"

definition new_Map :: "('k \<times> 'v) list \<Rightarrow> ('k \<times> 'v) list" where
  "new_Map entries = foldl (\<lambda>m (k, v). Map_set m k v) [] entries"

definition Map_values :: "('k \<times> 'v) list \<Rightarrow> 'v list" where
  "Map_values m = map snd m"

definition to_patient_option :: "patient \<times> profile \<Rightarrow> patient_option" where
  "to_patient_option e =
     \<lparr>patient_option.id' = patient.id' (fst e), full_name = profile.full_name (snd e)\<rparr>"

definition to_appointment_option :: "uuid \<Rightarrow> db \<Rightarrow> appointment \<Rightarrow> appointment_option option" where
  "to_appointment_option u d a =
     map_option
       (\<lambda>e. \<lparr>appointment_option.id' = appointment.id' a,
             appointment_date = appointment.appointment_date a,
             appointment_time = appointment.appointment_time a,
             patients = to_patient_option e\<rparr>)
       (embed_patients u d (appointment.patient_id a))"

text \<open>
  \<open>fetchDoctorData\<close>: with the caller's doctors row, the completed appointments of that
  doctor (newest first) for the appointment select, and the patients of all appointments
  of that doctor, made unique by id, for the patient select.
\<close>

definition doctor_patients :: "uuid \<Rightarrow> db \<Rightarrow> doctor \<Rightarrow> patient_option list" where
  "doctor_patients u d dr =
     (let patientsResult =
            List.map_filter
              (\<lambda>a. map_option to_patient_option (embed_patients u d (appointment.patient_id a)))
              (filter (\<lambda>a. appointment.doctor_id a = doctor.id' dr) (visible_appointments u d))
      in Map_values (new_Map (map (\<lambda>p. (patient_option.id' p, p)) patientsResult)))"

definition doctor_completed_appointments :: "uuid \<Rightarrow> db \<Rightarrow> doctor \<Rightarrow> appointment_option list" where
  "doctor_completed_appointments u d dr =
     rev (sort_key appointment_option.appointment_date
       (List.map_filter (to_appointment_option u d)
          (filter (\<lambda>a. appointment.doctor_id a = doctor.id' dr
                        \<and> appointment.status a = ''completed'')
             (visible_appointments u d))))"

definition fetchDoctorData ::
  "db \<Rightarrow> session \<Rightarrow> medical_records_page \<Rightarrow> medical_records_page \<times> effect list" where
  "fetchDoctorData d s pg =
     (case own_doctor s d of
        None \<Rightarrow> (pg, [Store (Select_from ''doctors'')])
      | Some dr \<Rightarrow>
          (pg\<lparr>medical_records_page.appointments := doctor_completed_appointments (uid s) d dr,
              medical_records_page.patients := doctor_patients (uid s) d dr\<rparr>,
           [Store (Select_from ''doctors''), Store (Select_from ''appointments''),
            Store (Select_from ''appointments'')]))"

text \<open>The object \<open>handleSubmit\<close> inserts; \<open>appointmentId || null\<close> sends null for the empty text.\<close>

definition medical_record_payload :: "doctor \<Rightarrow> record_form \<Rightarrow> medical_record_insert" where
  "medical_record_payload dr f =
     \<lparr>medical_record_insert.patient_id = record_form.patientId f,
      doctor_id = doctor.id' dr,
      appointment_id = (if appointmentId f = [] then None else Some (appointmentId f)),
      record_date = recordDate f,
      diagnosis = record_form.diagnosis f,
      symptoms = record_form.symptoms f,
      treatment = record_form.treatment f,
      medications = record_form.medications f,
      lab_results = labResults f,
      notes' = record_form.notes' f\<rparr>"

definition MedicalRecords_handleSubmit ::
  "(medical_record_insert \<Rightarrow> db \<Rightarrow> store_error + db) \<Rightarrow> bool \<Rightarrow> string \<Rightarrow> session \<Rightarrow> db
     \<Rightarrow> medical_records_page \<Rightarrow> db \<times> medical_records_page \<times> effect list" where
  "MedicalRecords_handleSubmit ins ok today s d pg =
     (case own_doctor s d of
        None \<Rightarrow> (d, pg, [Store (Select_from ''doctors''), Toast_error ''Doctor profile not found''])
      | Some dr \<Rightarrow>
          (let payload = medical_record_payload dr (recordForm pg)
           in case ins payload d of
                Inl err \<Rightarrow>
                  (d, pg,
                   [Store (Select_from ''doctors''), Store (Insert_medical_records payload),
                    Console_error ''Error creating medical record:'',
                    Toast_error ''Failed to create medical record''])
              | Inr d' \<Rightarrow>
                  (let (pg', fetched) =
                         fetchMedicalRecords ok d' s
                           (MedicalRecords_resetForm today
                              (pg\<lparr>medical_records_page.isDialogOpen := False\<rparr>))
                   in (d', pg',
                       [Store (Select_from ''doctors''), Store (Insert_medical_records payload),
                        Toast_success ''Medical record created successfully''] @ fetched))))"


section \<open>Dashboard: recent appointments and a patient's counters\<close>

text \<open>
  \<open>fetchRecentAppointments\<close>: the same embeds and role filter as the Appointments page,
  ordered by \<open>appointment_date\<close> and cut to five rows. It selects fewer columns of the
  appointment; the rows are kept whole here.
\<close>

definition fetchRecentAppointments :: "db \<Rightarrow> session \<Rightarrow> appointment_view list" where
  "fetchRecentAppointments d s =
     take 5 (sort_key (\<lambda>v. appointment.appointment_date (row v))
       (List.map_filter (join_appointment (uid s) d)
          (filter (appointments_eq_filter s d) (visible_appointments (uid s) d))))"

text \<open>
  \<open>fetchPatientStats\<close>, which \<open>fetchDashboardData\<close> runs for every caller who is neither an
  admin nor a doctor. With the caller's patients row it sends three requests, none with
  an embed: the appointments with that \<open>patient_id\<close>, the medical records with that
  \<open>patient_id\<close>, and the appointments with that \<open>patient_id\<close> dated today. Each selects the
  \<open>id\<close> column with an exact count; the rows are kept whole here and the count is their
  number. Without a patients row no request is sent and the counters stay as they were.
  \<open>today\<close> is the day the browser's clock gives.
\<close>

record stats =
  totalPatients :: nat
  totalAppointments :: nat
  todayAppointments :: nat
  totalRecords :: nat

definition patient_stats_rows ::
  "int \<Rightarrow> uuid \<Rightarrow> db \<Rightarrow> patient \<Rightarrow> appointment list \<times> medical_record list \<times> appointment list" where
  "patient_stats_rows today u d pt =
     (filter (\<lambda>a. appointment.patient_id a = patient.id' pt) (visible_appointments u d),
      filter (\<lambda>r. medical_record.patient_id r = patient.id' pt) (visible_medical_records u d),
      filter (\<lambda>a. appointment.patient_id a = patient.id' pt
                    \<and> appointment.appointment_date a = today)
        (visible_appointments u d))"

definition patient_stats_requests ::
  "int \<Rightarrow> db \<Rightarrow> session
     \<Rightarrow> (appointment list \<times> medical_record list \<times> appointment list) option" where
  "patient_stats_requests today d s =
     (case own_patient s d of
        None \<Rightarrow> None
      | Some pt \<Rightarrow> Some (patient_stats_rows today (uid s) d pt))"

definition fetchPatientStats :: "int \<Rightarrow> db \<Rightarrow> session \<Rightarrow> stats \<Rightarrow> stats" where
  "fetchPatientStats today d s st =
     (case patient_stats_requests today d s of
        None \<Rightarrow> st
      | Some (appointmentsResult, recordsResult, todayResult) \<Rightarrow>
          \<lparr>totalPatients = 0,
           totalAppointments = length appointmentsResult,
           todayAppointments = length todayResult,
           totalRecords = length recordsResult\<rparr>)"



section \<open>Patients and Doctors pages: the admin forms\<close>

record patient_form =
  fullName :: string
  email :: string
  phone :: string
  dateOfBirth :: string
  gender :: string
  address :: string
  emergencyContactName :: string
  emergencyContactPhone :: string
  insuranceInfo :: string

record patients_page =
  patients :: "(patient \<times> profile) list"
  loading :: bool
  searchTerm :: string
  isDialogOpen :: bool
  selectedPatient :: "(patient \<times> profile) option"
  patientForm :: patient_form

definition Patients_resetForm :: "patients_page \<Rightarrow> patients_page" where
  "Patients_resetForm pg =
     pg\<lparr>patientForm :=
          \<lparr>patient_form.fullName = [], email = [], phone = [], dateOfBirth = [], gender = [],
           address = [], emergencyContactName = [], emergencyContactPhone = [],
           insuranceInfo = []\<rparr>,
        selectedPatient := None\<rparr>"

text \<open>
  \<open>handleSubmit\<close> of the Patients page: an informational toast, the dialog closed, the
  form reset. Like every handler it is given the store and returns it.
\<close>

definition Patients_handleSubmit ::
  "db \<Rightarrow> patients_page \<Rightarrow> db \<times> patients_page \<times> effect list" where
  "Patients_handleSubmit d pg =
     (d, Patients_resetForm (pg\<lparr>patients_page.isDialogOpen := False\<rparr>),
      [Toast_info ''Patient registration requires proper user creation flow. Please use the authentication system to create new users.''])"

record doctor_form =
  fullName :: string
  email :: string
  phone :: string
  specialization :: string
  licenseNumber :: string
  department :: string
  yearsExperience :: string
  bio :: string

record doctors_page =
  doctors :: "(doctor \<times> profile) list"
  loading :: bool
  searchTerm :: string
  isDialogOpen :: bool
  selectedDoctor :: "(doctor \<times> profile) option"
  doctorForm :: doctor_form

definition Doctors_resetForm :: "doctors_page \<Rightarrow> doctors_page" where
  "Doctors_resetForm pg =
     pg\<lparr>doctorForm :=
          \<lparr>doctor_form.fullName = [], email = [], phone = [], specialization = [],
           licenseNumber = [], department = [], yearsExperience = [], bio = []\<rparr>,
        selectedDoctor := None\<rparr>"

definition Doctors_handleSubmit ::
  "db \<Rightarrow> doctors_page \<Rightarrow> db \<times> doctors_page \<times> effect list" where
  "Doctors_handleSubmit d pg =
     (d, Doctors_resetForm (pg\<lparr>doctors_page.isDialogOpen := False\<rparr>),
      [Toast_info ''Doctor registration requires proper user creation flow. Please use the authentication system to create new doctor accounts.''])"


section \<open>Sign-up trigger\<close>

text \<open>
  \<open>handle_new_user\<close> runs after a row is inserted into \<open>auth.users\<close>. \<open>NEW\<close> is that row:
  its id, its email (sign-up is by email and password) and the metadata the sign-up
  call attached; \<open>raw_user_meta_data ->> key\<close> is the text under \<open>key\<close>, or NULL.
\<close>

record auth_user =
  id' :: uuid
  email :: string
  raw_user_meta_data :: "string \<Rightarrow> string option"

definition COALESCE :: "'a option \<Rightarrow> 'a \<Rightarrow> 'a" where
  "COALESCE v dflt = (case v of Some x \<Rightarrow> x | None \<Rightarrow> dflt)"

datatype sql_error = Check_violation string | Unique_violation string

text \<open>
  \<open>INSERT INTO public.profiles\<close> under the table's constraints: the CHECK on \<open>role\<close>, the
  primary key and UNIQUE(\<open>user_id\<close>). \<open>new_id\<close> is the value \<open>gen_random_uuid()\<close> draws for
  the \<open>id\<close> column.
\<close>

definition insert_profile :: "profile \<Rightarrow> db \<Rightarrow> sql_error + db" where
  "insert_profile r d =
     (if \<not> (role r = ''patient'' \<or> role r = ''doctor'' \<or> role r = ''admin'')
        then Inl (Check_violation ''profiles_role_check'')
      else if \<exists>p \<in> set (profiles d). profile.id' p = profile.id' r
        then Inl (Unique_violation ''profiles_pkey'')
      else if \<exists>p \<in> set (profiles d). user_id p = user_id r
        then Inl (Unique_violation ''profiles_user_id_key'')
      else Inr (d\<lparr>profiles := profiles d @ [r]\<rparr>))"

definition handle_new_user :: "uuid \<Rightarrow> auth_user \<Rightarrow> db \<Rightarrow> sql_error + db" where
  "handle_new_user new_id NEW d =
     insert_profile
       \<lparr>profile.id' = new_id,
        user_id = auth_user.id' NEW,
        full_name = COALESCE (raw_user_meta_data NEW ''full_name'') ''User'',
        email = auth_user.email NEW,
        role = COALESCE (raw_user_meta_data NEW ''role'') ''patient''\<rparr>
       d"


section \<open>Store constraints and sessions\<close>

text \<open>
  UNIQUE(\<open>user_id\<close>) on \<open>profiles\<close> and the primary key of \<open>patients\<close>, as the executable
  checks \<open>distinct\<close> on the column's values.
\<close>

definition profiles_user_id_key :: "db \<Rightarrow> bool" where
  "profiles_user_id_key d = distinct (map user_id (profiles d))"

definition patients_pkey :: "db \<Rightarrow> bool" where
  "patients_pkey d = distinct (map patient.id' (db.patients d))"

text \<open>
  A session is signed in as the holder of profile \<open>up\<close>: the context resolved \<open>up\<close> from
  the store for the signed-in user.
\<close>

definition signed_in_as :: "session \<Rightarrow> db \<Rightarrow> profile \<Rightarrow> bool" where
  "signed_in_as s d up = (userProfile s = Some up \<and> up \<in> set (profiles d) \<and> user_id up = uid s)"

text \<open>
  Follows the spec's words: \<open>pid\<close> resolves to the patient row of profile \<open>up\<close> when a
  patients row with that id exists and every patients row with that id has \<open>up\<close> as its
  \<open>profile_id\<close>.
\<close>

definition resolves_to_own_patient :: "db \<Rightarrow> profile \<Rightarrow> uuid \<Rightarrow> bool" where
  "resolves_to_own_patient d up pid =
     (list_ex (\<lambda>pt. patient.id' pt = pid) (db.patients d)
      \<and> list_all (\<lambda>pt. patient.id' pt = pid \<longrightarrow> patient.profile_id pt = profile.id' up) (db.patients d))"


section \<open>A small clinic, for the examples\<close>

text \<open>
  Two patients (Jane Doe, John Roe), one doctor (Alan Grant) and one admin, each with
  their own user and profile; one appointment and one medical record per patient, all
  with Dr Grant.
\<close>

named_theorems clinic

definition jane_profile :: profile where [clinic]:
  "jane_profile = \<lparr>profile.id' = ''pr1'', user_id = ''u1'', full_name = ''Jane Doe'',
                    email = ''jane@ehr.test'', role = ''patient''\<rparr>"

definition john_profile :: profile where [clinic]:
  "john_profile = \<lparr>profile.id' = ''pr2'', user_id = ''u2'', full_name = ''John Roe'',
                    email = ''john@ehr.test'', role = ''patient''\<rparr>"

definition grant_profile :: profile where [clinic]:
  "grant_profile = \<lparr>profile.id' = ''pr3'', user_id = ''u3'', full_name = ''Alan Grant'',
                     email = ''grant@ehr.test'', role = ''doctor''\<rparr>"

definition admin_profile :: profile where [clinic]:
  "admin_profile = \<lparr>profile.id' = ''pr4'', user_id = ''u4'', full_name = ''Ada Admin'',
                     email = ''ada@ehr.test'', role = ''admin''\<rparr>"

definition jane_patient :: patient where [clinic]:
  "jane_patient = \<lparr>patient.id' = ''pt1'', profile_id = ''pr1''\<rparr>"

definition john_patient :: patient where [clinic]:
  "john_patient = \<lparr>patient.id' = ''pt2'', profile_id = ''pr2''\<rparr>"

definition grant_doctor :: doctor where [clinic]:
  "grant_doctor = \<lparr>doctor.id' = ''dr1'', profile_id = ''pr3'', specialization = ''Cardiology''\<rparr>"

definition jane_appointment :: appointment where [clinic]:
  "jane_appointment =
     \<lparr>appointment.id' = ''ap1'', patient_id = ''pt1'', doctor_id = ''dr1'',
      appointment_date = 9000, appointment_time = 32400000000, duration_minutes = 30,
      status = ''scheduled'', reason = Some ''Checkup'', notes' = None\<rparr>"

definition john_appointment :: appointment where [clinic]:
  "john_appointment =
     \<lparr>appointment.id' = ''ap2'', patient_id = ''pt2'', doctor_id = ''dr1'',
      appointment_date = 9001, appointment_time = 36000000000, duration_minutes = 45,
      status = ''completed'', reason = Some ''Follow-up'', notes' = None\<rparr>"

definition jane_record :: medical_record where [clinic]:
  "jane_record =
     \<lparr>medical_record.id' = ''mr1'', patient_id = ''pt1'', doctor_id = ''dr1'',
      appointment_id = None, record_date = 9000, diagnosis = Some ''Healthy'',
      symptoms = None, treatment = None, medications = None, lab_results = None,
      notes' = None\<rparr>"

definition john_record :: medical_record where [clinic]:
  "john_record =
     \<lparr>medical_record.id' = ''mr2'', patient_id = ''pt2'', doctor_id = ''dr1'',
      appointment_id = Some ''ap2'', record_date = 9001, diagnosis = Some ''Flu'',
      symptoms = Some ''Fever'', treatment = None, medications = None, lab_results = None,
      notes' = None\<rparr>"

definition clinic_db :: db where
  "clinic_db =
     \<lparr>profiles = [jane_profile, john_profile, grant_profile, admin_profile],
      patients = [jane_patient, john_patient],
      doctors = [grant_doctor],
      appointments = [jane_appointment, john_appointment],
      medical_records = [jane_record, john_record]\<rparr>"

definition jane_session :: session where [clinic]:
  "jane_session = \<lparr>uid = ''u1'', userProfile = Some jane_profile\<rparr>"

definition grant_session :: session where [clinic]:
  "grant_session = \<lparr>uid = ''u3'', userProfile = Some grant_profile\<rparr>"

definition admin_session :: session where [clinic]:
  "admin_session = \<lparr>uid = ''u4'', userProfile = Some admin_profile\<rparr>"

text \<open>The rows of the two appointments as a page would hold them, and fresh pages.\<close>

definition jane_row :: appointment_view where [clinic]:
  "jane_row = \<lparr>row = jane_appointment, patients_full_name = ''Jane Doe'',
                doctors_full_name = ''Alan Grant'', doctors_specialization = ''Cardiology''\<rparr>"

definition john_row :: appointment_view where [clinic]:
  "john_row = \<lparr>row = john_appointment, patients_full_name = ''John Roe'',
                doctors_full_name = ''Alan Grant'', doctors_specialization = ''Cardiology''\<rparr>"

definition appointments_page0 :: appointments_page where [clinic]:
  "appointments_page0 =
     \<lparr>appointments_page.appointments = [], doctors = [], patients = [], loading = True,
      searchTerm = [], statusFilter = ''all'', isDialogOpen = False,
      appointmentForm = emptyAppointmentForm\<rparr>"

definition medical_records_page0 :: medical_records_page where [clinic]:
  "medical_records_page0 =
     \<lparr>records = [], appointments = [], patients = [], loading = True, searchTerm = [],
      isDialogOpen = False,
      recordForm =
        \<lparr>record_form.patientId = [], appointmentId = [], recordDate = ''2024-08-22'',
         diagnosis = [], symptoms = [], treatment = [], medications = [],
         labResults = [], notes' = []\<rparr>\<rparr>"

text \<open>
  Two verdicts of a store on a write. The migration enables row-level security on
  \<open>appointments\<close> and \<open>medical_records\<close> and gives neither an INSERT policy, so its
  store denies the insert; a store that admits it appends the row.
\<close>

definition denied :: "'r \<Rightarrow> db \<Rightarrow> store_error + db" where [clinic]:
  "denied request d = Inl ''new row violates row-level security policy''"

definition appends_appointment :: "appointment \<Rightarrow> appointment_insert \<Rightarrow> db \<Rightarrow> store_error + db" where [clinic]:
  "appends_appointment a request d = Inr (d\<lparr>db.appointments := db.appointments d @ [a]\<rparr>)"

definition appends_record ::
  "medical_record \<Rightarrow> medical_record_insert \<Rightarrow> db \<Rightarrow> store_error + db" where [clinic]:
  "appends_record r request d = Inr (d\<lparr>db.medical_records := db.medical_records d @ [r]\<rparr>)"


text \<open>
  The Appointments page once the list is loaded with both appointments, and the same page
  with the booking dialog open; the Medical Records page with its dialog open.
\<close>

definition listed_page :: appointments_page where [clinic]:
  "listed_page =
     \<lparr>appointments_page.appointments = [jane_row, john_row], doctors = [], patients = [],
      loading = False, searchTerm = [], statusFilter = ''all'', isDialogOpen = False,
      appointmentForm = emptyAppointmentForm\<rparr>"

definition booking_page :: appointments_page where [clinic]:
  "booking_page =
     \<lparr>appointments_page.appointments = [jane_row], doctors = [], patients = [],
      loading = False, searchTerm = [], statusFilter = ''all'', isDialogOpen = True,
      appointmentForm =
        \<lparr>appointment_form.patientId = [], doctorId = ''dr1'', appointmentDate = ''2024-09-01'',
         appointmentTime = ''09:00'', duration = ''30'', reason = ''Checkup'', notes' = []\<rparr>\<rparr>"

definition recording_page :: medical_records_page where [clinic]:
  "recording_page =
     \<lparr>records = [], appointments = [], patients = [], loading = False, searchTerm = [],
      isDialogOpen = True,
      recordForm =
        \<lparr>record_form.patientId = ''pt1'', appointmentId = [], recordDate = ''2024-08-22'',
         diagnosis = ''Healthy'', symptoms = [], treatment = [], medications = [],
         labResults = [], notes' = []\<rparr>\<rparr>"

text \<open>Two sign-ups: one that supplies a name and a role, one that supplies no metadata.\<close>

definition sattler_signup :: auth_user where [clinic]:
  "sattler_signup =
     \<lparr>auth_user.id' = ''u5'', email = ''ellie@ehr.test'',
      raw_user_meta_data = map_of [(''full_name'', ''Ellie Sattler''), (''role'', ''doctor'')]\<rparr>"

definition bare_signup :: auth_user where [clinic]:
  "bare_signup =
     \<lparr>auth_user.id' = ''u6'', email = ''guest@ehr.test'', raw_user_meta_data = map_of []\<rparr>"


text \<open>
  The clinic after Jane, still a patient by her profile's role, was also entered as a
  doctor: a doctors row on her profile, an appointment and a record of hers with herself,
  and an appointment of John with her.
\<close>

definition jane_doctor :: doctor where [clinic]:
  "jane_doctor = \<lparr>doctor.id' = ''dr9'', profile_id = ''pr1'', specialization = ''Dermatology''\<rparr>"

definition jane_self_appointment :: appointment where [clinic]:
  "jane_self_appointment =
     \<lparr>appointment.id' = ''ap9'', patient_id = ''pt1'', doctor_id = ''dr9'',
      appointment_date = 9002, appointment_time = 32400000000, duration_minutes = 15,
      status = ''scheduled'', reason = None, notes' = None\<rparr>"

definition john_jane_appointment :: appointment where [clinic]:
  "john_jane_appointment =
     \<lparr>appointment.id' = ''ap8'', patient_id = ''pt2'', doctor_id = ''dr9'',
      appointment_date = 9002, appointment_time = 36000000000, duration_minutes = 15,
      status = ''scheduled'', reason = None, notes' = None\<rparr>"

definition jane_self_record :: medical_record where [clinic]:
  "jane_self_record =
     \<lparr>medical_record.id' = ''mr9'', patient_id = ''pt1'', doctor_id = ''dr9'',
      appointment_id = None, record_date = 9002, diagnosis = None, symptoms = None,
      treatment = None, medications = None, lab_results = None, notes' = None\<rparr>"

definition practice_db :: db where
  "practice_db =
     \<lparr>profiles = [jane_profile, john_profile, grant_profile, admin_profile],
      patients = [jane_patient, john_patient],
      doctors = [grant_doctor, jane_doctor],
      appointments = [jane_appointment, john_appointment, john_jane_appointment,
                      jane_self_appointment],
      medical_records = [jane_record, john_record, jane_self_record]\<rparr>"

definition jane_self_row :: appointment_view where [clinic]:
  "jane_self_row = \<lparr>row = jane_self_appointment, patients_full_name = ''Jane Doe'',
                     doctors_full_name = ''Jane Doe'', doctors_specialization = ''Dermatology''\<rparr>"

definition jane_self_record_row :: medical_record_view where [clinic]:
  "jane_self_record_row = \<lparr>rec = jane_self_record, patients_full_name = ''Jane Doe'',
                     doctors_full_name = ''Jane Doe'', doctors_specialization = ''Dermatology''\<rparr>"


section \<open>Properties\<close>

subsection \<open>The menu\<close>

lemma role_is_Some [simp]: "role_is (s\<lparr>userProfile := Some p\<rparr>) r = (role p = r)"
  by (simp add: role_is_def)

text \<open>
  Claim C10. The menu is a function of the signed-in profile's role alone: a patient gets
  Dashboard, Appointments, Medical Records; a doctor gets Dashboard, Patients,
  Appointments, Medical Records (Doctors removed); an admin gets all five entries, in the
  order Dashboard, Patients, Doctors, Appointments, Medical Records.
\<close>

theorem menuItems_by_role:
  "map label (menuItems \<lparr>uid = u, userProfile = Some (p\<lparr>role := ''patient''\<rparr>)\<rparr>)
     = [''Dashboard'', ''Appointments'', ''Medical Records'']
   \<and> map label (menuItems \<lparr>uid = u, userProfile = Some (p\<lparr>role := ''doctor''\<rparr>)\<rparr>)
     = [''Dashboard'', ''Patients'', ''Appointments'', ''Medical Records'']
   \<and> map label (menuItems \<lparr>uid = u, userProfile = Some (p\<lparr>role := ''admin''\<rparr>)\<rparr>)
     = [''Dashboard'', ''Patients'', ''Doctors'', ''Appointments'', ''Medical Records'']"
  by (simp add: menuItems_def role_is_def allMenuItems_def splice_def)

subsection \<open>What a patient is shown\<close>

lemma find_SomeD: "find P xs = Some x \<Longrightarrow> x \<in> set xs \<and> P x"
  by (induction xs) (auto split: if_splits)

lemma embed_patients_SomeD:
  assumes "embed_patients u d pid = Some (pt, pp)"
  shows "pt \<in> set (db.patients d) \<and> patient.id' pt = pid
         \<and> pp \<in> set (profiles d) \<and> profile.id' pp = patient.profile_id pt \<and> user_id pp = u"
proof -
  from assms obtain pt' where
    f1: "find (\<lambda>pt. patient.id' pt = pid) (visible_patients u d) = Some pt'"
    by (auto simp: embed_patients_def split: option.splits)
  with assms obtain pp' where
    f2: "find (\<lambda>p. profile.id' p = patient.profile_id pt') (visible_profiles u d) = Some pp'"
    by (auto simp: embed_patients_def split: option.splits)
  from assms f1 f2 have eq: "pt' = pt" "pp' = pp"
    by (simp_all add: embed_patients_def)
  from find_SomeD [OF f1] have "pt' \<in> set (db.patients d)" "patient.id' pt' = pid"
    by (simp_all add: visible_patients_def)
  moreover from find_SomeD [OF f2]
  have "pp' \<in> set (profiles d)" "profile.id' pp' = patient.profile_id pt'" "user_id pp' = u"
    by (simp_all add: visible_profiles_def profiles_select_def)
  ultimately show ?thesis
    using eq by simp
qed

lemma join_appointment_SomeD:
  "join_appointment u d a = Some v \<Longrightarrow>
     row v = a \<and> (\<exists>pt pp. embed_patients u d (appointment.patient_id a) = Some (pt, pp))"
  by (auto simp: join_appointment_def split: option.splits)

lemma join_medical_record_SomeD:
  "join_medical_record u d r = Some v \<Longrightarrow>
     rec v = r \<and> (\<exists>pt pp. embed_patients u d (medical_record.patient_id r) = Some (pt, pp))"
  by (auto simp: join_medical_record_def split: option.splits)

lemma in_set_map_filterD:
  "y \<in> set (List.map_filter f xs) \<Longrightarrow> \<exists>x \<in> set xs. f x = Some y"
  by (induction xs) (auto split: option.splits)

lemma select_appointments_joined:
  assumes "v \<in> set (select_appointments u d f)"
  shows "\<exists>a. join_appointment u d a = Some v"
proof -
  from assms have "v \<in> set (List.map_filter (join_appointment u d) (filter f (visible_appointments u d)))"
    by (simp add: select_appointments_def)
  then show ?thesis
    by (blast dest: in_set_map_filterD)
qed

lemma select_medical_records_joined:
  assumes "v \<in> set (select_medical_records u d f)"
  shows "\<exists>r. join_medical_record u d r = Some v"
proof -
  from assms have "v \<in> set (List.map_filter (join_medical_record u d)
      (filter f (visible_medical_records u d)))"
    by (simp add: select_medical_records_def)
  then show ?thesis
    by (blast dest: in_set_map_filterD)
qed

lemma fetchRecentAppointments_joined:
  assumes "v \<in> set (fetchRecentAppointments d s)"
  shows "\<exists>a. join_appointment (uid s) d a = Some v"
proof -
  from assms have "v \<in> set (List.map_filter (join_appointment (uid s) d)
      (filter (appointments_eq_filter s d) (visible_appointments (uid s) d)))"
    by (auto simp: fetchRecentAppointments_def dest: in_set_takeD)
  then show ?thesis
    by (blast dest: in_set_map_filterD)
qed

lemma embedded_patient_is_own:
  assumes e: "embed_patients (uid s) d pid = Some (pt, pp)"
    and s: "signed_in_as s d up"
    and uq: "profiles_user_id_key d"
    and pk: "patients_pkey d"
  shows "resolves_to_own_patient d up pid"
proof -
  from embed_patients_SomeD [OF e]
  have pt: "pt \<in> set (db.patients d)" "patient.id' pt = pid"
    and pp: "pp \<in> set (profiles d)" "profile.id' pp = patient.profile_id pt" "user_id pp = uid s"
    by simp_all
  from s have up: "up \<in> set (profiles d)" "user_id up = uid s"
    by (simp_all add: signed_in_as_def)
  from uq have "inj_on user_id (set (profiles d))"
    by (simp add: profiles_user_id_key_def distinct_map)
  then have "pp = up"
    using pp up by (simp add: inj_on_def)
  with pp have own: "patient.profile_id pt = profile.id' up"
    by simp
  from pk have inj: "inj_on patient.id' (set (db.patients d))"
    by (simp add: patients_pkey_def distinct_map)
  have "\<And>pt'. pt' \<in> set (db.patients d) \<Longrightarrow> patient.id' pt' = pid \<Longrightarrow> pt' = pt"
    using inj pt by (simp add: inj_on_def)
  with pt own show ?thesis
    unfolding resolves_to_own_patient_def list_ex_iff list_all_iff by blast
qed

lemma single_SomeD: "single rows = Some r \<Longrightarrow> rows = [r]"
  by (cases rows rule: list.exhaust; cases "tl rows") (auto simp: single_def split: list.splits)

lemma own_patient_SomeD:
  assumes "own_patient s d = Some pt" and "userProfile s = Some up"
  shows "pt \<in> set (db.patients d) \<and> patient.profile_id pt = profile.id' up"
proof -
  from assms
  have "filter (\<lambda>pt. patient.profile_id pt = profile.id' up) (visible_patients (uid s) d) = [pt]"
    by (simp add: own_patient_def single_SomeD)
  then have "pt \<in> set (filter (\<lambda>pt. patient.profile_id pt = profile.id' up)
      (visible_patients (uid s) d))"
    by simp
  then show ?thesis
    by (simp add: visible_patients_def)
qed

lemma own_patient_row_resolves:
  assumes s: "signed_in_as s d up" and pk: "patients_pkey d"
    and own: "own_patient s d = Some pt"
  shows "resolves_to_own_patient d up (patient.id' pt)"
proof -
  from s have "userProfile s = Some up"
    by (simp add: signed_in_as_def)
  from own_patient_SomeD [OF own this]
  have pt: "pt \<in> set (db.patients d)" "patient.profile_id pt = profile.id' up"
    by simp_all
  from pk have "inj_on patient.id' (set (db.patients d))"
    by (simp add: patients_pkey_def distinct_map)
  with pt(1) have "\<And>pt'. pt' \<in> set (db.patients d) \<Longrightarrow> patient.id' pt' = patient.id' pt \<Longrightarrow> pt' = pt"
    by (simp add: inj_on_def)
  with pt show ?thesis
    unfolding resolves_to_own_patient_def list_ex_iff list_all_iff by blast
qed

lemma patient_stats_requests_own:
  assumes s: "signed_in_as s d up" and pk: "patients_pkey d"
    and req: "patient_stats_requests today d s = Some (appointmentsResult, recordsResult, todayResult)"
  shows "(\<forall>a \<in> set appointmentsResult. resolves_to_own_patient d up (appointment.patient_id a))
       \<and> (\<forall>r \<in> set recordsResult. resolves_to_own_patient d up (medical_record.patient_id r))
       \<and> (\<forall>a \<in> set todayResult. resolves_to_own_patient d up (appointment.patient_id a))"
proof -
  from req obtain pt where own: "own_patient s d = Some pt"
    and rows: "patient_stats_rows today (uid s) d pt = (appointmentsResult, recordsResult, todayResult)"
    by (auto simp: patient_stats_requests_def split: option.splits)
  note r = own_patient_row_resolves [OF s pk own]
  from rows have
    "\<forall>a \<in> set appointmentsResult. appointment.patient_id a = patient.id' pt"
    "\<forall>r \<in> set recordsResult. medical_record.patient_id r = patient.id' pt"
    "\<forall>a \<in> set todayResult. appointment.patient_id a = patient.id' pt"
    by (auto simp: patient_stats_rows_def)
  with r show ?thesis
    by simp
qed

text \<open>
  Claim C1. For a caller signed in as the holder of a profile of role \<open>patient\<close>, every row
  that an appointment or medical-record fetch returns has a \<open>patient_id\<close> that resolves,
  through the patients table's \<open>profile_id\<close>, to that profile's own patients row: a
  patients row with that id exists and every patients row with that id belongs to the
  caller's profile, so no row of another patient is returned. The fetches are the list
  of the Appointments page, the dashboard's recent list, the list of the Medical Records
  page and the three requests behind the dashboard's counters. The store is one that
  satisfies UNIQUE(\<open>user_id\<close>) on profiles and the primary key of patients.
\<close>

theorem patient_fetches_return_own_rows:
  assumes "signed_in_as s d up" and "role up = ''patient''"
    and "profiles_user_id_key d" and "patients_pkey d"
  shows "(\<forall>v \<in> set (appointments_page.appointments (fst (fetchAppointments True d s pg))).
            resolves_to_own_patient d up (appointment.patient_id (row v)))
       \<and> (\<forall>v \<in> set (fetchRecentAppointments d s).
            resolves_to_own_patient d up (appointment.patient_id (row v)))
       \<and> (\<forall>v \<in> set (records (fst (fetchMedicalRecords True d s pg'))).
            resolves_to_own_patient d up (medical_record.patient_id (rec v)))
       \<and> (\<forall>appointmentsResult recordsResult todayResult.
            patient_stats_requests today d s
              = Some (appointmentsResult, recordsResult, todayResult) \<longrightarrow>
            (\<forall>a \<in> set appointmentsResult.
                resolves_to_own_patient d up (appointment.patient_id a))
            \<and> (\<forall>r \<in> set recordsResult.
                resolves_to_own_patient d up (medical_record.patient_id r))
            \<and> (\<forall>a \<in> set todayResult.
                resolves_to_own_patient d up (appointment.patient_id a)))"
proof (intro conjI ballI allI impI)
  fix v assume "v \<in> set (appointments_page.appointments (fst (fetchAppointments True d s pg)))"
  then have "v \<in> set (select_appointments (uid s) d (appointments_eq_filter s d))"
    by (simp add: fetchAppointments_def)
  then obtain a where "join_appointment (uid s) d a = Some v"
    by (blast dest: select_appointments_joined)
  then obtain pt pp where "embed_patients (uid s) d (appointment.patient_id (row v)) = Some (pt, pp)"
    by (blast dest: join_appointment_SomeD)
  then show "resolves_to_own_patient d up (appointment.patient_id (row v))"
    using assms(1,3,4) by (rule embedded_patient_is_own)
next
  fix v assume "v \<in> set (fetchRecentAppointments d s)"
  then obtain a where "join_appointment (uid s) d a = Some v"
    by (blast dest: fetchRecentAppointments_joined)
  then obtain pt pp where "embed_patients (uid s) d (appointment.patient_id (row v)) = Some (pt, pp)"
    by (blast dest: join_appointment_SomeD)
  then show "resolves_to_own_patient d up (appointment.patient_id (row v))"
    using assms(1,3,4) by (rule embedded_patient_is_own)
next
  fix v assume "v \<in> set (records (fst (fetchMedicalRecords True d s pg')))"
  then have "v \<in> set (select_medical_records (uid s) d (medical_records_eq_filter s d))"
    by (simp add: fetchMedicalRecords_def)
  then obtain r where "join_medical_record (uid s) d r = Some v"
    by (blast dest: select_medical_records_joined)
  then obtain pt pp where "embed_patients (uid s) d (medical_record.patient_id (rec v)) = Some (pt, pp)"
    by (blast dest: join_medical_record_SomeD)
  then show "resolves_to_own_patient d up (medical_record.patient_id (rec v))"
    using assms(1,3,4) by (rule embedded_patient_is_own)
next
  fix appointmentsResult recordsResult todayResult
  assume req: "patient_stats_requests today d s
      = Some (appointmentsResult, recordsResult, todayResult)"
  note own = patient_stats_requests_own [OF assms(1,4) req]
  {
    fix a assume "a \<in> set appointmentsResult"
    with own show "resolves_to_own_patient d up (appointment.patient_id a)"
      by blast
  next
    fix r assume "r \<in> set recordsResult"
    with own show "resolves_to_own_patient d up (medical_record.patient_id r)"
      by blast
  next
    fix a assume "a \<in> set todayResult"
    with own show "resolves_to_own_patient d up (appointment.patient_id a)"
      by blast
  }
qed

text \<open>
  The appointments policies alone give the same for a caller who has no doctors row: every
  appointment the policies show such a caller is one of the caller's own patients row.
\<close>

lemma own_profile_unique:
  assumes "signed_in_as s d up" and "profiles_user_id_key d"
    and "prof \<in> set (visible_profiles (uid s) d)"
  shows "prof = up"
proof -
  from assms(1) have up: "up \<in> set (profiles d)" "user_id up = uid s"
    by (simp_all add: signed_in_as_def)
  from assms(3) have prof: "prof \<in> set (profiles d)" "user_id prof = uid s"
    by (simp_all add: visible_profiles_def profiles_select_def)
  from assms(2) have "inj_on user_id (set (profiles d))"
    by (simp add: profiles_user_id_key_def distinct_map)
  then show ?thesis
    using up prof by (simp add: inj_on_def)
qed

lemma visible_appointments_of_patient:
  assumes s: "signed_in_as s d up" and uq: "profiles_user_id_key d" and pk: "patients_pkey d"
    and no_doctor: "\<forall>dr \<in> set (db.doctors d). doctor.profile_id dr \<noteq> profile.id' up"
    and a: "a \<in> set (visible_appointments (uid s) d)"
  shows "resolves_to_own_patient d up (appointment.patient_id a)"
proof -
  from a have "appointments_select (uid s) d a"
    by (simp add: visible_appointments_def)
  then consider
    (patient) p prof where "p \<in> set (visible_patients (uid s) d)"
      "prof \<in> set (visible_profiles (uid s) d)" "patient.profile_id p = profile.id' prof"
      "patient.id' p = appointment.patient_id a"
  | (doctor) dr prof where "dr \<in> set (visible_doctors (uid s) d)"
      "prof \<in> set (visible_profiles (uid s) d)" "doctor.profile_id dr = profile.id' prof"
    unfolding appointments_select_def by blast
  then show ?thesis
  proof cases
    case patient
    from own_profile_unique [OF s uq patient(2)] patient(3)
    have own: "patient.profile_id p = profile.id' up"
      by simp
    from patient(1) have p: "p \<in> set (db.patients d)"
      by (simp add: visible_patients_def)
    from pk have "inj_on patient.id' (set (db.patients d))"
      by (simp add: patients_pkey_def distinct_map)
    with p patient(4)
    have "\<And>p'. p' \<in> set (db.patients d) \<Longrightarrow> patient.id' p' = appointment.patient_id a \<Longrightarrow> p' = p"
      by (simp add: inj_on_def)
    with p own patient(4) show ?thesis
      unfolding resolves_to_own_patient_def list_ex_iff list_all_iff by blast
  next
    case doctor
    from own_profile_unique [OF s uq doctor(2)] doctor(3)
    have "doctor.profile_id dr = profile.id' up"
      by simp
    moreover from doctor(1) have "dr \<in> set (db.doctors d)"
      by (simp add: visible_doctors_def)
    ultimately show ?thesis
      using no_doctor by blast
  qed
qed



subsection \<open>Writes of the Appointments page\<close>

lemma fetchAppointments_stores:
  "Store c \<in> set (snd (fetchAppointments ok d s pg)) \<Longrightarrow> \<exists>t. c = Select_from t"
  by (auto simp: fetchAppointments_def role_probe_def split: if_splits)

lemma fetchMedicalRecords_stores:
  "Store c \<in> set (snd (fetchMedicalRecords ok d s pg)) \<Longrightarrow> \<exists>t. c = Select_from t"
  by (auto simp: fetchMedicalRecords_def role_probe_def split: if_splits)

lemma fetchAppointments_refetches:
  "Store (Select_from ''appointments'') \<in> set (snd (fetchAppointments ok d s pg))"
  by (simp add: fetchAppointments_def)

lemma fetchMedicalRecords_refetches:
  "Store (Select_from ''medical_records'') \<in> set (snd (fetchMedicalRecords ok d s pg))"
  by (simp add: fetchMedicalRecords_def)

lemma fetchAppointments_isDialogOpen:
  "appointments_page.isDialogOpen (fst (fetchAppointments ok d s pg))
     = appointments_page.isDialogOpen pg"
  by (simp add: fetchAppointments_def)

lemma fetchMedicalRecords_isDialogOpen:
  "medical_records_page.isDialogOpen (fst (fetchMedicalRecords ok d s pg))
     = medical_records_page.isDialogOpen pg"
  by (simp add: fetchMedicalRecords_def)

lemma appointment_payload_status:
  "appointment_insert.status (appointment_payload s d f) = ''scheduled''"
  by (simp add: appointment_payload_def Let_def)

lemma Appointments_handleSubmit_Inl:
  assumes "ins (appointment_payload s d (appointmentForm pg)) d = Inl err"
  shows "Appointments_handleSubmit ins ok s d pg =
           (d, pg,
            (if role_is s ''patient'' then [Store (Select_from ''patients'')] else [])
            @ [Store (Insert_appointments (appointment_payload s d (appointmentForm pg))),
               Console_error ''Error creating appointment:'',
               Toast_error ''Failed to schedule appointment''])"
  using assms by (simp add: Appointments_handleSubmit_def Let_def)

lemma Appointments_handleSubmit_Inr:
  assumes "ins (appointment_payload s d (appointmentForm pg)) d = Inr d'"
  shows "Appointments_handleSubmit ins ok s d pg =
           (d', fst (fetchAppointments ok d' s (Appointments_resetForm (pg\<lparr>appointments_page.isDialogOpen := False\<rparr>))),
            (if role_is s ''patient'' then [Store (Select_from ''patients'')] else [])
            @ [Store (Insert_appointments (appointment_payload s d (appointmentForm pg))),
               Toast_success ''Appointment scheduled successfully'']
            @ snd (fetchAppointments ok d' s (Appointments_resetForm (pg\<lparr>appointments_page.isDialogOpen := False\<rparr>))))"
  using assms by (simp add: Appointments_handleSubmit_def Let_def case_prod_beta)

lemma updateAppointmentStatus_Inl:
  assumes "upd i newStatus d = Inl err"
  shows "updateAppointmentStatus upd ok s i newStatus d pg =
           (d, pg,
            [Store (Update_appointments_status i newStatus),
             Console_error ''Error updating appointment:'',
             Toast_error ''Failed to update appointment''])"
  using assms by (simp add: updateAppointmentStatus_def)

lemma updateAppointmentStatus_Inr:
  assumes "upd i newStatus d = Inr d'"
  shows "updateAppointmentStatus upd ok s i newStatus d pg =
           (d', fst (fetchAppointments ok d' s pg),
            [Store (Update_appointments_status i newStatus),
             Toast_success (''Appointment '' @ newStatus @ '' successfully'')]
            @ snd (fetchAppointments ok d' s pg))"
  using assms by (simp add: updateAppointmentStatus_def case_prod_beta)

lemma handleSubmit_stores:
  assumes "Store c \<in> set (snd (snd (Appointments_handleSubmit ins ok s d pg)))"
  shows "(\<exists>t. c = Select_from t)
         \<or> c = Insert_appointments (appointment_payload s d (appointmentForm pg))"
proof (cases "ins (appointment_payload s d (appointmentForm pg)) d")
  case (Inl err)
  with assms show ?thesis
    by (auto simp: Appointments_handleSubmit_Inl split: if_splits)
next
  case (Inr d')
  with assms show ?thesis
    by (auto simp: Appointments_handleSubmit_Inr split: if_splits dest: fetchAppointments_stores)
qed

lemma updateAppointmentStatus_stores:
  assumes "Store c \<in> set (snd (snd (updateAppointmentStatus upd ok s i newStatus d pg)))"
  shows "(\<exists>t. c = Select_from t) \<or> c = Update_appointments_status i newStatus"
proof (cases "upd i newStatus d")
  case (Inl err)
  with assms show ?thesis
    by (auto simp: updateAppointmentStatus_Inl)
next
  case (Inr d')
  with assms show ?thesis
    by (auto simp: updateAppointmentStatus_Inr dest: fetchAppointments_stores)
qed

lemma statusButtons_cases:
  "newStatus \<in> set (statusButtons s a) \<Longrightarrow>
     (newStatus = ''completed'' \<or> newStatus = ''cancelled'')
     \<and> appointment.status (row a) = ''scheduled''
     \<and> (role_is s ''doctor'' \<or> role_is s ''admin'')"
  by (auto simp: statusButtons_def split: if_splits)

lemma offered_Click_status:
  assumes "Click_status i newStatus \<in> set (offered_actions s pg)"
  shows "\<exists>a \<in> set (appointments_page.appointments pg).
           appointment.id' (row a) = i \<and> newStatus \<in> set (statusButtons s a)"
  using assms
  by (auto simp: offered_actions_def filteredAppointments_def split: if_splits)

text \<open>
  Claim C4. Whatever write the Appointments page sends to the store on an action it
  offers is either the insert of an appointment with status \<open>scheduled\<close> or the update of
  a listed appointment whose status is \<open>scheduled\<close> to \<open>completed\<close> or \<open>cancelled\<close>; it
  never writes \<open>no_show\<close>; and a card whose status is not \<open>scheduled\<close> has no status
  button, whoever views it.
\<close>

theorem appointment_status_writes:
  assumes offered: "act \<in> set (offered_actions s pg)"
    and issued: "Store c \<in> set (snd (snd (Appointments_perform ins upd ok s act d pg)))"
  shows "(case c of
            Select_from t \<Rightarrow> True
          | Insert_appointments p \<Rightarrow> appointment_insert.status p = ''scheduled''
          | Update_appointments_status i newStatus \<Rightarrow>
              (newStatus = ''completed'' \<or> newStatus = ''cancelled'')
              \<and> (\<exists>a \<in> set (appointments_page.appointments pg).
                    appointment.id' (row a) = i \<and> appointment.status (row a) = ''scheduled'')
          | Insert_medical_records r \<Rightarrow> False)
       \<and> (\<forall>i. c \<noteq> Update_appointments_status i ''no_show'')
       \<and> (\<forall>p. c = Insert_appointments p \<longrightarrow> appointment_insert.status p \<noteq> ''no_show'')
       \<and> (\<forall>viewer a. appointment.status (row a) \<noteq> ''scheduled'' \<longrightarrow> statusButtons viewer a = [])"
proof -
  have main: "case c of
            Select_from t \<Rightarrow> True
          | Insert_appointments p \<Rightarrow> appointment_insert.status p = ''scheduled''
          | Update_appointments_status i newStatus \<Rightarrow>
              (newStatus = ''completed'' \<or> newStatus = ''cancelled'')
              \<and> (\<exists>a \<in> set (appointments_page.appointments pg).
                    appointment.id' (row a) = i \<and> appointment.status (row a) = ''scheduled'')
          | Insert_medical_records r \<Rightarrow> False"
  proof (cases act)
    case Submit_form
    with issued have "(\<exists>t. c = Select_from t)
         \<or> c = Insert_appointments (appointment_payload s d (appointmentForm pg))"
      by (auto simp: Appointments_perform_def dest: handleSubmit_stores)
    then show ?thesis
      by (auto simp: appointment_payload_status)
  next
    case (Click_status i newStatus)
    with issued have c: "(\<exists>t. c = Select_from t) \<or> c = Update_appointments_status i newStatus"
      by (auto simp: Appointments_perform_def dest: updateAppointmentStatus_stores)
    from offered Click_status obtain a where
      a: "a \<in> set (appointments_page.appointments pg)" "appointment.id' (row a) = i"
      and "newStatus \<in> set (statusButtons s a)"
      by (blast dest: offered_Click_status)
    then have b: "newStatus = ''completed'' \<or> newStatus = ''cancelled''"
      "appointment.status (row a) = ''scheduled''"
      by (simp_all add: statusButtons_cases)
    from c show ?thesis
    proof
      assume "\<exists>t. c = Select_from t"
      then show ?thesis by auto
    next
      assume "c = Update_appointments_status i newStatus"
      with a b show ?thesis by auto
    qed
  qed
  have buttons: "\<forall>viewer a. appointment.status (row a) \<noteq> ''scheduled'' \<longrightarrow> statusButtons viewer a = []"
    by (simp add: statusButtons_def)
  from main have "\<forall>i. c \<noteq> Update_appointments_status i ''no_show''"
    by auto
  moreover from main have "\<forall>p. c = Insert_appointments p \<longrightarrow> appointment_insert.status p \<noteq> ''no_show''"
    by auto
  ultimately show ?thesis
    using main buttons by blast
qed

subsection \<open>The clinic under the policies\<close>

lemma clinic_db_tables:
  "profiles clinic_db = [jane_profile, john_profile, grant_profile, admin_profile]"
  "db.patients clinic_db = [jane_patient, john_patient]"
  "db.doctors clinic_db = [grant_doctor]"
  "db.appointments clinic_db = [jane_appointment, john_appointment]"
  "db.medical_records clinic_db = [jane_record, john_record]"
  by (simp_all add: clinic_db_def)

lemma clinic_visible_doctors: "visible_doctors u clinic_db = [grant_doctor]"
  by (simp add: visible_doctors_def doctors_select_def clinic_db_tables)

text \<open>Jane, a patient who also has a doctors row.\<close>

lemma practice_db_tables:
  "profiles practice_db = [jane_profile, john_profile, grant_profile, admin_profile]"
  "db.patients practice_db = [jane_patient, john_patient]"
  "db.doctors practice_db = [grant_doctor, jane_doctor]"
  "db.appointments practice_db
     = [jane_appointment, john_appointment, john_jane_appointment, jane_self_appointment]"
  "db.medical_records practice_db = [jane_record, john_record, jane_self_record]"
  by (simp_all add: practice_db_def)

lemma practice_constraints: "profiles_user_id_key practice_db" "patients_pkey practice_db"
  by (simp_all add: profiles_user_id_key_def patients_pkey_def practice_db_tables clinic)

lemma practice_jane_signed_in: "signed_in_as jane_session practice_db jane_profile"
  by (simp add: signed_in_as_def practice_db_tables clinic)

lemma practice_visible_doctors: "visible_doctors u practice_db = [grant_doctor, jane_doctor]"
  by (simp add: visible_doctors_def doctors_select_def practice_db_tables)

lemma practice_visible_profiles: "visible_profiles ''u1'' practice_db = [jane_profile]"
  by (simp add: visible_profiles_def profiles_select_def practice_db_tables clinic)

lemma practice_visible_patients: "visible_patients ''u1'' practice_db = [jane_patient]"
  by (simp add: visible_patients_def patients_select_def practice_visible_profiles
        practice_visible_doctors practice_db_tables clinic)

lemma practice_visible_appointments:
  "visible_appointments ''u1'' practice_db
     = [jane_appointment, john_jane_appointment, jane_self_appointment]"
  by (simp add: visible_appointments_def appointments_select_def practice_visible_profiles
        practice_visible_patients practice_visible_doctors practice_db_tables clinic)

lemma practice_visible_medical_records:
  "visible_medical_records ''u1'' practice_db = [jane_record, jane_self_record]"
  by (simp add: visible_medical_records_def medical_records_select_def practice_visible_profiles
        practice_visible_patients practice_visible_doctors practice_db_tables clinic)

lemma practice_own_patient: "own_patient jane_session practice_db = Some jane_patient"
  by (simp add: own_patient_def practice_visible_patients single_def clinic)

lemma practice_embeds:
  "embed_patients ''u1'' practice_db ''pt1'' = Some (jane_patient, jane_profile)"
  "embed_doctors ''u1'' practice_db ''dr1'' = None"
  "embed_doctors ''u1'' practice_db ''dr9'' = Some (jane_doctor, jane_profile)"
  by (simp_all add: embed_patients_def embed_doctors_def practice_visible_profiles
        practice_visible_patients practice_visible_doctors clinic)

lemma practice_joins:
  "join_appointment ''u1'' practice_db jane_appointment = None"
  "join_appointment ''u1'' practice_db jane_self_appointment = Some jane_self_row"
  "join_medical_record ''u1'' practice_db jane_record = None"
  "join_medical_record ''u1'' practice_db jane_self_record = Some jane_self_record_row"
proof -
  have ids: "appointment.patient_id jane_appointment = ''pt1''"
    "appointment.doctor_id jane_appointment = ''dr1''"
    "appointment.patient_id jane_self_appointment = ''pt1''"
    "appointment.doctor_id jane_self_appointment = ''dr9''"
    "medical_record.patient_id jane_record = ''pt1''"
    "medical_record.doctor_id jane_record = ''dr1''"
    "medical_record.patient_id jane_self_record = ''pt1''"
    "medical_record.doctor_id jane_self_record = ''dr9''"
    by (simp_all add: clinic)
  have names: "profile.full_name jane_profile = ''Jane Doe''"
    "doctor.specialization jane_doctor = ''Dermatology''"
    by (simp_all add: clinic)
  show "join_appointment ''u1'' practice_db jane_appointment = None"
    "join_appointment ''u1'' practice_db jane_self_appointment = Some jane_self_row"
    "join_medical_record ''u1'' practice_db jane_record = None"
    "join_medical_record ''u1'' practice_db jane_self_record = Some jane_self_record_row"
    by (simp_all add: join_appointment_def join_medical_record_def ids practice_embeds names
        jane_self_row_def jane_self_record_row_def)
qed

lemma practice_eq_filters:
  "appointments_eq_filter jane_session practice_db = (\<lambda>a. appointment.patient_id a = ''pt1'')"
  "medical_records_eq_filter jane_session practice_db
     = (\<lambda>r. medical_record.patient_id r = ''pt1'')"
proof -
  have r: "\<not> role_is jane_session ''doctor''" "role_is jane_session ''patient''"
    by (simp_all add: role_is_def clinic)
  have i: "patient.id' jane_patient = ''pt1''"
    by (simp add: clinic)
  show "appointments_eq_filter jane_session practice_db
      = (\<lambda>a. appointment.patient_id a = ''pt1'')"
    by (simp add: appointments_eq_filter_def r practice_own_patient i)
  show "medical_records_eq_filter jane_session practice_db
      = (\<lambda>r. medical_record.patient_id r = ''pt1'')"
    by (simp add: medical_records_eq_filter_def r practice_own_patient i)
qed

lemma practice_patient_ids:
  "appointment.patient_id jane_appointment = ''pt1''"
  "appointment.patient_id john_jane_appointment = ''pt2''"
  "appointment.patient_id jane_self_appointment = ''pt1''"
  "medical_record.patient_id jane_record = ''pt1''"
  "medical_record.patient_id jane_self_record = ''pt1''"
  "patient.id' jane_patient = ''pt1''"
  "appointment.appointment_date jane_appointment = 9000"
  "appointment.appointment_date jane_self_appointment = 9002"
  by (simp_all add: clinic)

lemma uid_jane_session: "uid jane_session = ''u1''"
  by (simp add: jane_session_def)

lemma practice_fetches:
  "appointments_page.appointments
     (fst (fetchAppointments True practice_db jane_session appointments_page0)) = [jane_self_row]"
  "fetchRecentAppointments practice_db jane_session = [jane_self_row]"
  "records (fst (fetchMedicalRecords True practice_db jane_session medical_records_page0))
     = [jane_self_record_row]"
  by (simp_all add: fetchAppointments_def select_appointments_def fetchRecentAppointments_def
        fetchMedicalRecords_def select_medical_records_def uid_jane_session
        practice_visible_appointments practice_visible_medical_records practice_eq_filters
        practice_patient_ids practice_joins)

lemma practice_stats:
  "patient_stats_requests 9002 practice_db jane_session
     = Some ([jane_appointment, jane_self_appointment], [jane_record, jane_self_record],
             [jane_self_appointment])"
  by (simp add: patient_stats_requests_def practice_own_patient patient_stats_rows_def
        uid_jane_session practice_visible_appointments practice_visible_medical_records
        practice_patient_ids)

text \<open>
  Jane in the practice. The appointments policies show her three appointments, John's
  with her among them; each fetch returns her rows of her own patients row only: her
  appointment and record with herself in the three lists (the rows with Dr Grant are
  dropped by the embed of his profile), and all her appointments and records in the
  requests behind the counters.
\<close>

theorem patient_fetches_return_own_rows_witness:
  "signed_in_as jane_session practice_db jane_profile \<and> role jane_profile = ''patient''
   \<and> profiles_user_id_key practice_db \<and> patients_pkey practice_db
   \<and> visible_appointments (uid jane_session) practice_db
       = [jane_appointment, john_jane_appointment, jane_self_appointment]
   \<and> \<not> resolves_to_own_patient practice_db jane_profile
         (appointment.patient_id john_jane_appointment)
   \<and> appointments_page.appointments
        (fst (fetchAppointments True practice_db jane_session appointments_page0))
       = [jane_self_row]
   \<and> fetchRecentAppointments practice_db jane_session = [jane_self_row]
   \<and> records (fst (fetchMedicalRecords True practice_db jane_session medical_records_page0))
       = [jane_self_record_row]
   \<and> patient_stats_requests 9002 practice_db jane_session
       = Some ([jane_appointment, jane_self_appointment], [jane_record, jane_self_record],
               [jane_self_appointment])
   \<and> resolves_to_own_patient practice_db jane_profile (appointment.patient_id (row jane_self_row))
   \<and> resolves_to_own_patient practice_db jane_profile
         (medical_record.patient_id (rec jane_self_record_row))
   \<and> list_all (\<lambda>a. resolves_to_own_patient practice_db jane_profile (appointment.patient_id a))
         [jane_appointment, jane_self_appointment]
   \<and> list_all (\<lambda>r. resolves_to_own_patient practice_db jane_profile (medical_record.patient_id r))
         [jane_record, jane_self_record]"
proof -
  have role: "role jane_profile = ''patient''"
    by (simp add: jane_profile_def)
  have vis: "visible_appointments (uid jane_session) practice_db
       = [jane_appointment, john_jane_appointment, jane_self_appointment]"
    by (simp add: uid_jane_session practice_visible_appointments)
  have other: "\<not> resolves_to_own_patient practice_db jane_profile
         (appointment.patient_id john_jane_appointment)"
    by (simp add: resolves_to_own_patient_def practice_db_tables clinic)
  from patient_fetches_return_own_rows
    [OF practice_jane_signed_in role practice_constraints,
     of appointments_page0 medical_records_page0 9002]
  have "resolves_to_own_patient practice_db jane_profile (appointment.patient_id (row jane_self_row))
    \<and> resolves_to_own_patient practice_db jane_profile
         (medical_record.patient_id (rec jane_self_record_row))
    \<and> list_all (\<lambda>a. resolves_to_own_patient practice_db jane_profile (appointment.patient_id a))
         [jane_appointment, jane_self_appointment]
    \<and> list_all (\<lambda>r. resolves_to_own_patient practice_db jane_profile (medical_record.patient_id r))
         [jane_record, jane_self_record]"
    by (simp add: practice_fetches practice_stats)
  then show ?thesis
    using practice_jane_signed_in role practice_constraints vis other practice_fetches
      practice_stats
    by simp
qed

text \<open>The admin.\<close>

lemma admin_visible_profiles: "visible_profiles ''u4'' clinic_db = [admin_profile]"
  by (simp add: visible_profiles_def profiles_select_def clinic_db_tables clinic)

lemma admin_visible_patients: "visible_patients ''u4'' clinic_db = [jane_patient, john_patient]"
  by (simp add: visible_patients_def patients_select_def admin_visible_profiles
        clinic_db_tables clinic)

lemma admin_visible_appointments: "visible_appointments ''u4'' clinic_db = []"
  by (simp add: visible_appointments_def appointments_select_def admin_visible_profiles
        admin_visible_patients clinic_visible_doctors clinic_db_tables clinic)

lemma admin_select_appointments: "select_appointments ''u4'' clinic_db f = []"
  by (simp add: select_appointments_def admin_visible_appointments)

text \<open>
  Claim C2 says that an admin who requests the appointment list gets every stored
  appointment. In the clinic two appointments are stored, and the admin's request returns
  none: \<open>appointments\<close> has a SELECT policy for the row's patient and one for the row's
  doctor and none for admins (the patients table has "Admins can view all patients"), and
  the embedded profiles of the patient and the doctor are other users' profiles, which the
  profiles policy hides from the caller.
\<close>

theorem admin_appointment_list_is_empty:
  "role_is admin_session ''admin''
   \<and> db.appointments clinic_db = [jane_appointment, john_appointment]
   \<and> visible_appointments (uid admin_session) clinic_db = []
   \<and> appointments_page.appointments
        (fst (fetchAppointments True clinic_db admin_session appointments_page0)) = []"
  by (simp add: fetchAppointments_def admin_select_appointments admin_visible_appointments
        clinic_db_tables role_is_def admin_session_def admin_profile_def)

text \<open>Dr Grant.\<close>

lemma grant_visible_profiles: "visible_profiles ''u3'' clinic_db = [grant_profile]"
  by (simp add: visible_profiles_def profiles_select_def clinic_db_tables clinic)

lemma grant_visible_patients: "visible_patients ''u3'' clinic_db = [jane_patient, john_patient]"
  by (simp add: visible_patients_def patients_select_def grant_visible_profiles
        clinic_visible_doctors clinic_db_tables clinic)

lemma grant_visible_appointments:
  "visible_appointments ''u3'' clinic_db = [jane_appointment, john_appointment]"
  by (simp add: visible_appointments_def appointments_select_def grant_visible_profiles
        grant_visible_patients clinic_visible_doctors clinic_db_tables clinic)

lemma grant_own_doctor: "own_doctor grant_session clinic_db = Some grant_doctor"
  by (simp add: own_doctor_def clinic_visible_doctors single_def clinic)

lemma grant_embed_patients:
  "embed_patients ''u3'' clinic_db ''pt1'' = None" "embed_patients ''u3'' clinic_db ''pt2'' = None"
  by (simp_all add: embed_patients_def grant_visible_profiles grant_visible_patients clinic)

lemma grant_doctor_patients: "doctor_patients ''u3'' clinic_db grant_doctor = []"
  by (simp add: doctor_patients_def grant_visible_appointments grant_embed_patients
        new_Map_def Map_values_def jane_appointment_def john_appointment_def grant_doctor_def)

text \<open>
  Claim C3 says that the patients offered in the record form are exactly the distinct
  patients with an appointment with the doctor. In the clinic Dr Grant has an appointment
  with Jane and one with John, and \<open>fetchDoctorData\<close> offers him no patient: each
  appointment's \<open>patients!inner(id, profiles!inner(full_name))\<close> embed needs the patient's
  profile, which the profiles policy ("Users can view their own profile") hides from the
  doctor, so the inner join drops the row.
\<close>

theorem doctor_is_offered_no_patient:
  "own_doctor grant_session clinic_db = Some grant_doctor
   \<and> visible_profiles (uid grant_session) clinic_db = [grant_profile]
   \<and> visible_appointments (uid grant_session) clinic_db = [jane_appointment, john_appointment]
   \<and> filter (\<lambda>a. appointment.doctor_id a = doctor.id' grant_doctor) (db.appointments clinic_db)
       = [jane_appointment, john_appointment]
   \<and> medical_records_page.patients
        (fst (fetchDoctorData clinic_db grant_session medical_records_page0)) = []"
proof -
  have "uid grant_session = ''u3''"
    by (simp add: grant_session_def)
  then have "medical_records_page.patients
      (fst (fetchDoctorData clinic_db grant_session medical_records_page0)) = []"
    by (simp add: fetchDoctorData_def grant_own_doctor grant_doctor_patients)
  moreover have "filter (\<lambda>a. appointment.doctor_id a = doctor.id' grant_doctor)
      (db.appointments clinic_db) = [jane_appointment, john_appointment]"
    by (simp add: clinic_db_tables clinic)
  ultimately show ?thesis
    using grant_own_doctor grant_visible_profiles grant_visible_appointments
      \<open>uid grant_session = ''u3''\<close>
    by simp
qed

subsection \<open>Search box and status filter\<close>

lemma includes_str_sublist: "includes_str hay needle \<longleftrightarrow> sublist needle hay"
  by (induction hay) (simp_all add: sublist_Cons_right)

lemma includes_str_Nil [simp]: "includes_str hay []"
  by (simp add: includes_str_sublist)

lemma ci_substring_includes:
  "ci_substring needle hay \<longleftrightarrow> includes_str (toLowerCase hay) (toLowerCase needle)"
  by (simp add: ci_substring_def includes_str_sublist sublist_def)

lemma matchesSearch_iff:
  "matchesSearch term a \<longleftrightarrow>
     ci_substring term (appointment_view.patients_full_name a)
     \<or> ci_substring term (appointment_view.doctors_full_name a)
     \<or> (\<exists>r. appointment.reason (row a) = Some r \<and> ci_substring term r)"
  by (cases "appointment.reason (row a)") (simp_all add: matchesSearch_def ci_substring_includes)

lemma toLowerCase_examples:
  "toLowerCase ''jane'' = ''jane''"
  "toLowerCase ''Jane Doe'' = ''jane doe''"
  "toLowerCase ''John Roe'' = ''john roe''"
  "toLowerCase ''Alan Grant'' = ''alan grant''"
  "toLowerCase ''Follow-up'' = ''follow-up''"
  "toLowerCase ''Checkup'' = ''checkup''"
  by code_simp+

lemma toLowerCase_Nil [simp]: "toLowerCase [] = []"
  by (simp add: toLowerCase_def)

text \<open>
  Claim C6. The search box keeps a row exactly when the search term is a
  case-insensitive substring of the row's patient name, doctor name or reason (and the
  row passes the status filter). In particular, of an appointment of Jane Doe and one of
  John Roe whose doctor name and reason do not contain \<open>jane\<close>, the query \<open>jane\<close> keeps
  exactly Jane Doe's.
\<close>

theorem search_box_filter:
  "filteredAppointments appts term flt =
     filter (\<lambda>a. (ci_substring term (appointment_view.patients_full_name a)
                   \<or> ci_substring term (appointment_view.doctors_full_name a)
                   \<or> (\<exists>r. appointment.reason (row a) = Some r \<and> ci_substring term r))
                  \<and> (flt = ''all'' \<or> appointment.status (row a) = flt)) appts
   \<and> (appointment_view.patients_full_name a = ''Jane Doe''
        \<and> appointment_view.patients_full_name b = ''John Roe''
        \<and> \<not> ci_substring ''jane'' (appointment_view.doctors_full_name b)
        \<and> (\<forall>r. appointment.reason (row b) = Some r \<longrightarrow> \<not> ci_substring ''jane'' r)
      \<longrightarrow> filteredAppointments [a, b] ''jane'' ''all'' = [a])"
proof (intro conjI impI)
  show "filteredAppointments appts term flt =
     filter (\<lambda>a. (ci_substring term (appointment_view.patients_full_name a)
                   \<or> ci_substring term (appointment_view.doctors_full_name a)
                   \<or> (\<exists>r. appointment.reason (row a) = Some r \<and> ci_substring term r))
                  \<and> (flt = ''all'' \<or> appointment.status (row a) = flt)) appts"
    by (simp add: filteredAppointments_def matchesStatus_def matchesSearch_iff)
next
  assume h: "appointment_view.patients_full_name a = ''Jane Doe''
        \<and> appointment_view.patients_full_name b = ''John Roe''
        \<and> \<not> ci_substring ''jane'' (appointment_view.doctors_full_name b)
        \<and> (\<forall>r. appointment.reason (row b) = Some r \<longrightarrow> \<not> ci_substring ''jane'' r)"
  have "ci_substring ''jane'' ''Jane Doe''"
    by (simp add: ci_substring_includes toLowerCase_examples)
  with h have a: "matchesSearch ''jane'' a"
    by (simp add: matchesSearch_iff)
  have "\<not> ci_substring ''jane'' ''John Roe''"
    by (simp add: ci_substring_includes toLowerCase_examples)
  with h have b: "\<not> matchesSearch ''jane'' b"
    by (simp add: matchesSearch_iff)
  from a b show "filteredAppointments [a, b] ''jane'' ''all'' = [a]"
    by (simp add: filteredAppointments_def matchesStatus_def)
qed

text \<open>The clinic's two rows are such a pair; the match ignores the case of the query.\<close>

theorem search_box_filter_witness:
  "appointment_view.patients_full_name jane_row = ''Jane Doe''
   \<and> appointment_view.patients_full_name john_row = ''John Roe''
   \<and> filteredAppointments [jane_row, john_row] ''jane'' ''all'' = [jane_row]
   \<and> filteredAppointments [jane_row, john_row] ''JANE'' ''all'' = [jane_row]"
proof -
  have names: "appointment_view.patients_full_name jane_row = ''Jane Doe''"
    "appointment_view.patients_full_name john_row = ''John Roe''"
    by (simp_all add: jane_row_def john_row_def)
  have doctor: "\<not> ci_substring ''jane'' (appointment_view.doctors_full_name john_row)"
    by (simp add: john_row_def ci_substring_includes toLowerCase_examples)
  have reason: "\<forall>r. appointment.reason (row john_row) = Some r \<longrightarrow> \<not> ci_substring ''jane'' r"
    by (simp add: john_row_def john_appointment_def ci_substring_includes toLowerCase_examples)
  have first: "filteredAppointments [jane_row, john_row] ''jane'' ''all'' = [jane_row]"
    using search_box_filter [of "[]" "[]" "[]" jane_row john_row] names doctor reason by blast
  have "toLowerCase ''JANE'' = toLowerCase ''jane''"
    by code_simp
  then have "matchesSearch ''JANE'' = matchesSearch ''jane''"
    by (intro ext) (simp add: matchesSearch_def split: option.split)
  then have "filteredAppointments [jane_row, john_row] ''JANE'' ''all''
      = filteredAppointments [jane_row, john_row] ''jane'' ''all''"
    by (simp add: filteredAppointments_def)
  with first names show ?thesis
    by simp
qed

text \<open>
  Claim C7. With an empty search term the status filter \<open>all\<close> returns the fetched list
  as it is, and the status filter \<open>cancelled\<close> returns exactly its rows whose status is
  \<open>cancelled\<close>.
\<close>

theorem status_filter_all_and_cancelled:
  "filteredAppointments appts [] ''all'' = appts
   \<and> filteredAppointments appts [] ''cancelled''
       = filter (\<lambda>a. appointment.status (row a) = ''cancelled'') appts"
  by (simp add: filteredAppointments_def matchesStatus_def matchesSearch_def)

subsection \<open>The status buttons in the clinic\<close>

lemma filteredAppointments_unfiltered: "filteredAppointments appts [] ''all'' = appts"
  by (simp add: filteredAppointments_def matchesStatus_def matchesSearch_def)

lemma grant_offered_actions:
  "offered_actions grant_session listed_page
     = [Click_status ''ap1'' ''completed'', Click_status ''ap1'' ''cancelled'']"
proof -
  have "statusButtons grant_session jane_row = [''completed'', ''cancelled'']"
    "statusButtons grant_session john_row = []"
    by (simp_all add: statusButtons_def role_is_def clinic)
  moreover have "appointment.id' (row jane_row) = ''ap1''"
    by (simp add: jane_row_def jane_appointment_def)
  ultimately show ?thesis
    by (simp add: offered_actions_def listed_page_def filteredAppointments_unfiltered)
qed

text \<open>
  In the clinic Dr Grant sees both appointments; the page offers him the two status
  buttons of Jane's scheduled appointment and none for John's completed one, and pressing
  Complete sends the update of that appointment to \<open>completed\<close>.
\<close>

theorem appointment_status_writes_witness:
  "Click_status ''ap1'' ''completed'' \<in> set (offered_actions grant_session listed_page)
   \<and> Store (Update_appointments_status ''ap1'' ''completed'')
       \<in> set (snd (snd (Appointments_perform denied (\<lambda>i. denied) True grant_session
                 (Click_status ''ap1'' ''completed'') clinic_db listed_page)))
   \<and> list_ex (\<lambda>a. appointment.id' (row a) = ''ap1'' \<and> appointment.status (row a) = ''scheduled'')
         (appointments_page.appointments listed_page)
   \<and> statusButtons grant_session john_row = []"
proof -
  have offered: "Click_status ''ap1'' ''completed'' \<in> set (offered_actions grant_session listed_page)"
    by (simp add: grant_offered_actions)
  have issued: "Store (Update_appointments_status ''ap1'' ''completed'')
       \<in> set (snd (snd (Appointments_perform denied (\<lambda>i. denied) True grant_session
                 (Click_status ''ap1'' ''completed'') clinic_db listed_page)))"
    by (simp add: Appointments_perform_def updateAppointmentStatus_def denied_def)
  have "appointment.status (row john_row) \<noteq> ''scheduled''"
    by (simp add: john_row_def john_appointment_def)
  with appointment_status_writes [OF offered issued] offered issued show ?thesis
    by (simp add: list_ex_iff)
qed


subsection \<open>Create submissions\<close>

lemma MedicalRecords_handleSubmit_None:
  assumes "own_doctor s d = None"
  shows "MedicalRecords_handleSubmit ins ok today s d pg =
           (d, pg, [Store (Select_from ''doctors''), Toast_error ''Doctor profile not found''])"
  using assms by (simp add: MedicalRecords_handleSubmit_def)

lemma MedicalRecords_handleSubmit_Inl:
  assumes "own_doctor s d = Some dr"
    and "ins (medical_record_payload dr (recordForm pg)) d = Inl err"
  shows "MedicalRecords_handleSubmit ins ok today s d pg =
           (d, pg,
            [Store (Select_from ''doctors''),
             Store (Insert_medical_records (medical_record_payload dr (recordForm pg))),
             Console_error ''Error creating medical record:'',
             Toast_error ''Failed to create medical record''])"
  using assms by (simp add: MedicalRecords_handleSubmit_def Let_def)

lemma MedicalRecords_handleSubmit_Inr:
  assumes "own_doctor s d = Some dr"
    and "ins (medical_record_payload dr (recordForm pg)) d = Inr d'"
  shows "MedicalRecords_handleSubmit ins ok today s d pg =
           (d',
            fst (fetchMedicalRecords ok d' s
                   (MedicalRecords_resetForm today (pg\<lparr>medical_records_page.isDialogOpen := False\<rparr>))),
            [Store (Select_from ''doctors''),
             Store (Insert_medical_records (medical_record_payload dr (recordForm pg))),
             Toast_success ''Medical record created successfully'']
            @ snd (fetchMedicalRecords ok d' s
                   (MedicalRecords_resetForm today (pg\<lparr>medical_records_page.isDialogOpen := False\<rparr>))))"
  using assms by (simp add: MedicalRecords_handleSubmit_def Let_def case_prod_beta)

lemma fetchAppointments_no_toast_success:
  "Toast_success m \<notin> set (snd (fetchAppointments ok d s pg))"
  by (simp add: fetchAppointments_def role_probe_def)

lemma role_probe_not_list:
  "Store (Select_from ''appointments'') \<notin> set (role_probe s)"
  "Store (Select_from ''medical_records'') \<notin> set (role_probe s)"
  by (simp_all add: role_probe_def)

lemma fetchAppointments_ok:
  "appointments_page.appointments (fst (fetchAppointments True d s pg))
     = select_appointments (uid s) d (appointments_eq_filter s d)"
  by (simp add: fetchAppointments_def)

lemma fetchMedicalRecords_ok:
  "records (fst (fetchMedicalRecords True d s pg))
     = select_medical_records (uid s) d (medical_records_eq_filter s d)"
  by (simp add: fetchMedicalRecords_def)

text \<open>
  Claim C8. When the store rejects the insert of a create submission (appointment or
  medical record), the handler changes neither the store nor the page state (the dialog
  stays as it was, open, and the list is the one displayed before), raises the fixed
  failure notification and no success notification, and sends no list request. When the
  store accepts it, the handler raises the success notification, closes the dialog and
  sends the list request, whose rows (when it is answered) replace the list.
\<close>

theorem failed_create_keeps_dialog_and_list:
  "(ins (appointment_payload s d (appointmentForm pg)) d = Inl err \<longrightarrow>
      fst (Appointments_handleSubmit ins ok s d pg) = d
      \<and> fst (snd (Appointments_handleSubmit ins ok s d pg)) = pg
      \<and> Toast_error ''Failed to schedule appointment''
          \<in> set (snd (snd (Appointments_handleSubmit ins ok s d pg)))
      \<and> (\<forall>m. Toast_success m \<notin> set (snd (snd (Appointments_handleSubmit ins ok s d pg))))
      \<and> Store (Select_from ''appointments'')
          \<notin> set (snd (snd (Appointments_handleSubmit ins ok s d pg))))
   \<and> (ins (appointment_payload s d (appointmentForm pg)) d = Inr d' \<longrightarrow>
      fst (Appointments_handleSubmit ins ok s d pg) = d'
      \<and> \<not> appointments_page.isDialogOpen (fst (snd (Appointments_handleSubmit ins ok s d pg)))
      \<and> Toast_success ''Appointment scheduled successfully''
          \<in> set (snd (snd (Appointments_handleSubmit ins ok s d pg)))
      \<and> Store (Select_from ''appointments'')
          \<in> set (snd (snd (Appointments_handleSubmit ins ok s d pg)))
      \<and> appointments_page.appointments (fst (snd (Appointments_handleSubmit ins True s d pg)))
          = select_appointments (uid s) d' (appointments_eq_filter s d'))
   \<and> (own_doctor s d = Some dr
        \<and> ins_r (medical_record_payload dr (recordForm pg_r)) d = Inl err \<longrightarrow>
      fst (MedicalRecords_handleSubmit ins_r ok today s d pg_r) = d
      \<and> fst (snd (MedicalRecords_handleSubmit ins_r ok today s d pg_r)) = pg_r
      \<and> Toast_error ''Failed to create medical record''
          \<in> set (snd (snd (MedicalRecords_handleSubmit ins_r ok today s d pg_r)))
      \<and> (\<forall>m. Toast_success m \<notin> set (snd (snd (MedicalRecords_handleSubmit ins_r ok today s d pg_r))))
      \<and> Store (Select_from ''medical_records'')
          \<notin> set (snd (snd (MedicalRecords_handleSubmit ins_r ok today s d pg_r))))
   \<and> (own_doctor s d = Some dr
        \<and> ins_r (medical_record_payload dr (recordForm pg_r)) d = Inr d' \<longrightarrow>
      fst (MedicalRecords_handleSubmit ins_r ok today s d pg_r) = d'
      \<and> \<not> medical_records_page.isDialogOpen
            (fst (snd (MedicalRecords_handleSubmit ins_r ok today s d pg_r)))
      \<and> Toast_success ''Medical record created successfully''
          \<in> set (snd (snd (MedicalRecords_handleSubmit ins_r ok today s d pg_r)))
      \<and> Store (Select_from ''medical_records'')
          \<in> set (snd (snd (MedicalRecords_handleSubmit ins_r ok today s d pg_r)))
      \<and> records (fst (snd (MedicalRecords_handleSubmit ins_r True today s d pg_r)))
          = select_medical_records (uid s) d' (medical_records_eq_filter s d'))"
proof (intro conjI impI; (elim conjE)?)
  assume "ins (appointment_payload s d (appointmentForm pg)) d = Inl err"
  note out = Appointments_handleSubmit_Inl [where ins = ins and s = s and d = d and pg = pg, OF this]
  show "fst (Appointments_handleSubmit ins ok s d pg) = d"
    and "fst (snd (Appointments_handleSubmit ins ok s d pg)) = pg"
    and "Toast_error ''Failed to schedule appointment''
          \<in> set (snd (snd (Appointments_handleSubmit ins ok s d pg)))"
    and "\<forall>m. Toast_success m \<notin> set (snd (snd (Appointments_handleSubmit ins ok s d pg)))"
    and "Store (Select_from ''appointments'')
          \<notin> set (snd (snd (Appointments_handleSubmit ins ok s d pg)))"
    by (simp_all add: out)
next
  assume "ins (appointment_payload s d (appointmentForm pg)) d = Inr d'"
  note out = Appointments_handleSubmit_Inr [where ins = ins and s = s and d = d and pg = pg, OF this]
  show "fst (Appointments_handleSubmit ins ok s d pg) = d'"
    and "\<not> appointments_page.isDialogOpen (fst (snd (Appointments_handleSubmit ins ok s d pg)))"
    and "Toast_success ''Appointment scheduled successfully''
          \<in> set (snd (snd (Appointments_handleSubmit ins ok s d pg)))"
    and "Store (Select_from ''appointments'')
          \<in> set (snd (snd (Appointments_handleSubmit ins ok s d pg)))"
    and "appointments_page.appointments (fst (snd (Appointments_handleSubmit ins True s d pg)))
          = select_appointments (uid s) d' (appointments_eq_filter s d')"
    by (simp_all add: out fetchAppointments_isDialogOpen fetchAppointments_refetches
        fetchAppointments_ok Appointments_resetForm_def)
next
  assume "own_doctor s d = Some dr" "ins_r (medical_record_payload dr (recordForm pg_r)) d = Inl err"
  note out = MedicalRecords_handleSubmit_Inl [where ins = ins_r and s = s and d = d and pg = pg_r, OF this]
  show "fst (MedicalRecords_handleSubmit ins_r ok today s d pg_r) = d"
    and "fst (snd (MedicalRecords_handleSubmit ins_r ok today s d pg_r)) = pg_r"
    and "Toast_error ''Failed to create medical record''
          \<in> set (snd (snd (MedicalRecords_handleSubmit ins_r ok today s d pg_r)))"
    and "\<forall>m. Toast_success m \<notin> set (snd (snd (MedicalRecords_handleSubmit ins_r ok today s d pg_r)))"
    and "Store (Select_from ''medical_records'')
          \<notin> set (snd (snd (MedicalRecords_handleSubmit ins_r ok today s d pg_r)))"
    by (simp_all add: out)
next
  assume "own_doctor s d = Some dr" "ins_r (medical_record_payload dr (recordForm pg_r)) d = Inr d'"
  note out = MedicalRecords_handleSubmit_Inr [where ins = ins_r and s = s and d = d and pg = pg_r, OF this]
  show "fst (MedicalRecords_handleSubmit ins_r ok today s d pg_r) = d'"
    and "\<not> medical_records_page.isDialogOpen
            (fst (snd (MedicalRecords_handleSubmit ins_r ok today s d pg_r)))"
    and "Toast_success ''Medical record created successfully''
          \<in> set (snd (snd (MedicalRecords_handleSubmit ins_r ok today s d pg_r)))"
    and "Store (Select_from ''medical_records'')
          \<in> set (snd (snd (MedicalRecords_handleSubmit ins_r ok today s d pg_r)))"
    and "records (fst (snd (MedicalRecords_handleSubmit ins_r True today s d pg_r)))
          = select_medical_records (uid s) d' (medical_records_eq_filter s d')"
    by (simp_all add: out fetchMedicalRecords_isDialogOpen fetchMedicalRecords_refetches
        fetchMedicalRecords_ok MedicalRecords_resetForm_def)
qed

text \<open>
  In the clinic: Jane's booking and Dr Grant's record, first against the store of the
  migration, which denies both inserts, then against a store that admits them.
\<close>

theorem failed_create_keeps_dialog_and_list_witness:
  "denied (appointment_payload jane_session clinic_db (appointmentForm booking_page)) clinic_db
     = Inl ''new row violates row-level security policy''
   \<and> appointments_page.isDialogOpen booking_page
   \<and> Appointments_handleSubmit denied True jane_session clinic_db booking_page
       = (clinic_db, booking_page,
          [Store (Select_from ''patients''),
           Store (Insert_appointments
             (appointment_payload jane_session clinic_db (appointmentForm booking_page))),
           Console_error ''Error creating appointment:'',
           Toast_error ''Failed to schedule appointment''])
   \<and> \<not> appointments_page.isDialogOpen
         (fst (snd (Appointments_handleSubmit (appends_appointment john_appointment) True
            jane_session clinic_db booking_page)))
   \<and> own_doctor grant_session clinic_db = Some grant_doctor
   \<and> medical_records_page.isDialogOpen recording_page
   \<and> fst (snd (MedicalRecords_handleSubmit denied True ''2024-08-22'' grant_session clinic_db
         recording_page)) = recording_page
   \<and> \<not> medical_records_page.isDialogOpen
         (fst (snd (MedicalRecords_handleSubmit (appends_record jane_record) True ''2024-08-22''
            grant_session clinic_db recording_page)))"
proof -
  let ?msg = "''new row violates row-level security policy''"
  let ?d1 = "clinic_db\<lparr>db.appointments := db.appointments clinic_db @ [john_appointment]\<rparr>"
  let ?d2 = "clinic_db\<lparr>db.medical_records := db.medical_records clinic_db @ [jane_record]\<rparr>"
  have a_fail: "denied (appointment_payload jane_session clinic_db (appointmentForm booking_page))
      clinic_db = Inl ?msg"
    by (simp add: denied_def)
  have a_ok: "appends_appointment john_appointment
      (appointment_payload jane_session clinic_db (appointmentForm booking_page)) clinic_db = Inr ?d1"
    by (simp add: appends_appointment_def)
  have dr: "own_doctor grant_session clinic_db = Some grant_doctor"
    by (rule grant_own_doctor)
  have r_fail: "denied (medical_record_payload grant_doctor (recordForm recording_page)) clinic_db
      = Inl ?msg"
    by (simp add: denied_def)
  have r_ok: "appends_record jane_record
      (medical_record_payload grant_doctor (recordForm recording_page)) clinic_db = Inr ?d2"
    by (simp add: appends_record_def)
  have "role_is jane_session ''patient''"
    by (simp add: role_is_def jane_session_def jane_profile_def)
  then have effs: "Appointments_handleSubmit denied True jane_session clinic_db booking_page
       = (clinic_db, booking_page,
          [Store (Select_from ''patients''),
           Store (Insert_appointments
             (appointment_payload jane_session clinic_db (appointmentForm booking_page))),
           Console_error ''Error creating appointment:'',
           Toast_error ''Failed to schedule appointment''])"
    using a_fail by (simp add: Appointments_handleSubmit_Inl [where err = ?msg])
  have opened: "appointments_page.isDialogOpen booking_page"
    "medical_records_page.isDialogOpen recording_page"
    by (simp_all add: booking_page_def recording_page_def)
  from failed_create_keeps_dialog_and_list
    [where ins = denied and s = jane_session and d = clinic_db and pg = booking_page
       and err = ?msg and ok = True]
    failed_create_keeps_dialog_and_list
    [where ins = "appends_appointment john_appointment" and s = jane_session and d = clinic_db
       and pg = booking_page and d' = ?d1 and ok = True]
    failed_create_keeps_dialog_and_list
    [where ins_r = denied and s = grant_session and d = clinic_db and pg_r = recording_page
       and err = ?msg and ok = True and dr = grant_doctor and today = "''2024-08-22''"]
    failed_create_keeps_dialog_and_list
    [where ins_r = "appends_record jane_record" and s = grant_session and d = clinic_db
       and pg_r = recording_page and d' = ?d2 and ok = True and dr = grant_doctor
       and today = "''2024-08-22''"]
  show ?thesis
    using a_fail a_ok dr r_fail r_ok effs opened by simp
qed

subsection \<open>The admin forms\<close>

text \<open>
  Claim C9. Submitting the admin's Add Patient or Add Doctor form, whatever the form
  holds, leaves the store as it is and sends it no request at all; the handler raises one
  informational notification, closes the dialog and resets the form (which also clears
  the selection), and leaves the listed rows as they are.
\<close>

theorem admin_forms_write_nothing:
  "fst (Patients_handleSubmit d pg) = d
   \<and> (\<forall>c. Store c \<notin> set (snd (snd (Patients_handleSubmit d pg))))
   \<and> (\<exists>m. snd (snd (Patients_handleSubmit d pg)) = [Toast_info m])
   \<and> fst (snd (Patients_handleSubmit d pg))
       = Patients_resetForm (pg\<lparr>patients_page.isDialogOpen := False\<rparr>)
   \<and> patients_page.patients (fst (snd (Patients_handleSubmit d pg))) = patients_page.patients pg
   \<and> fst (Doctors_handleSubmit d pg') = d
   \<and> (\<forall>c. Store c \<notin> set (snd (snd (Doctors_handleSubmit d pg'))))
   \<and> (\<exists>m. snd (snd (Doctors_handleSubmit d pg')) = [Toast_info m])
   \<and> fst (snd (Doctors_handleSubmit d pg'))
       = Doctors_resetForm (pg'\<lparr>doctors_page.isDialogOpen := False\<rparr>)
   \<and> doctors_page.doctors (fst (snd (Doctors_handleSubmit d pg'))) = doctors_page.doctors pg'"
  by (simp add: Patients_handleSubmit_def Doctors_handleSubmit_def Patients_resetForm_def
      Doctors_resetForm_def)

subsection \<open>Sign-up\<close>

text \<open>
  Claim C5. When a new identity signs up (no profile has its user id, and the id drawn for
  the new row is unused), the trigger adds one profiles row for it. The row's role is the
  role supplied in the sign-up metadata when one of the three roles is supplied, and
  \<open>patient\<close> when none is; its name is the supplied name, or \<open>User\<close> when none is.
\<close>

theorem handle_new_user_creates_profile:
  assumes "\<forall>p \<in> set (profiles d). user_id p \<noteq> auth_user.id' NEW"
    and "\<forall>p \<in> set (profiles d). profile.id' p \<noteq> new_id"
    and "case raw_user_meta_data NEW ''role'' of
           None \<Rightarrow> True
         | Some r \<Rightarrow> r = ''patient'' \<or> r = ''doctor'' \<or> r = ''admin''"
  shows "handle_new_user new_id NEW d =
           Inr (d\<lparr>profiles := profiles d @
                 [\<lparr>profile.id' = new_id,
                   user_id = auth_user.id' NEW,
                   full_name = (case raw_user_meta_data NEW ''full_name'' of
                                  Some n \<Rightarrow> n | None \<Rightarrow> ''User''),
                   email = auth_user.email NEW,
                   role = (case raw_user_meta_data NEW ''role'' of
                             Some r \<Rightarrow> r | None \<Rightarrow> ''patient'')\<rparr>]\<rparr>)"
  using assms
  by (cases "raw_user_meta_data NEW ''role''")
     (auto simp: handle_new_user_def insert_profile_def COALESCE_def)

text \<open>
  In the clinic: a sign-up that supplies the name Ellie Sattler and the role \<open>doctor\<close>, and
  one that supplies nothing.
\<close>

theorem handle_new_user_creates_profile_witness:
  "handle_new_user ''pr5'' sattler_signup clinic_db =
     Inr (clinic_db\<lparr>profiles := profiles clinic_db @
           [\<lparr>profile.id' = ''pr5'', user_id = ''u5'', full_name = ''Ellie Sattler'',
             email = ''ellie@ehr.test'', role = ''doctor''\<rparr>]\<rparr>)
   \<and> handle_new_user ''pr6'' bare_signup clinic_db =
     Inr (clinic_db\<lparr>profiles := profiles clinic_db @
           [\<lparr>profile.id' = ''pr6'', user_id = ''u6'', full_name = ''User'',
             email = ''guest@ehr.test'', role = ''patient''\<rparr>]\<rparr>)"
proof -
  have fresh: "\<forall>p \<in> set (profiles clinic_db). user_id p \<noteq> auth_user.id' sattler_signup"
    "\<forall>p \<in> set (profiles clinic_db). profile.id' p \<noteq> ''pr5''"
    "\<forall>p \<in> set (profiles clinic_db). user_id p \<noteq> auth_user.id' bare_signup"
    "\<forall>p \<in> set (profiles clinic_db). profile.id' p \<noteq> ''pr6''"
    by (simp_all add: clinic_db_tables clinic)
  have meta: "raw_user_meta_data sattler_signup ''role'' = Some ''doctor''"
    "raw_user_meta_data sattler_signup ''full_name'' = Some ''Ellie Sattler''"
    "raw_user_meta_data bare_signup ''role'' = None"
    "raw_user_meta_data bare_signup ''full_name'' = None"
    by (simp_all add: sattler_signup_def bare_signup_def)
  have roles:
    "case raw_user_meta_data sattler_signup ''role'' of
       None \<Rightarrow> True | Some r \<Rightarrow> r = ''patient'' \<or> r = ''doctor'' \<or> r = ''admin''"
    "case raw_user_meta_data bare_signup ''role'' of
       None \<Rightarrow> True | Some r \<Rightarrow> r = ''patient'' \<or> r = ''doctor'' \<or> r = ''admin''"
    by (simp_all add: meta)
  have fields: "auth_user.id' sattler_signup = ''u5''" "auth_user.email sattler_signup = ''ellie@ehr.test''"
    "auth_user.id' bare_signup = ''u6''" "auth_user.email bare_signup = ''guest@ehr.test''"
    by (simp_all add: sattler_signup_def bare_signup_def)
  from handle_new_user_creates_profile [OF fresh(1,2) roles(1)]
    handle_new_user_creates_profile [OF fresh(3,4) roles(2)]
  show ?thesis
    by (simp add: meta fields)
qed

text \<open>A sign-up that supplies any other role text fails the CHECK on \<open>role\<close>: no row is added.\<close>

lemma handle_new_user_rejects_other_roles:
  assumes "raw_user_meta_data NEW ''role'' = Some r"
    and "r \<noteq> ''patient''" "r \<noteq> ''doctor''" "r \<noteq> ''admin''"
  shows "handle_new_user new_id NEW d = Inl (Check_violation ''profiles_role_check'')"
  using assms by (simp add: handle_new_user_def insert_profile_def COALESCE_def)

subsection \<open>The list order and the record form\<close>

text \<open>Whatever the list request returns is ordered by date, then time.\<close>

lemma select_appointments_sorted:
  "sorted (map (\<lambda>v. (appointment.appointment_date (row v), appointment.appointment_time (row v)))
     (select_appointments u d f))"
  by (simp add: select_appointments_def)

text \<open>
  The parts of the record form that hold under the policies: an offered patient has an
  appointment with the doctor, and the insert carries the id of the caller's doctors row.
\<close>

lemma Map_set_values: "set (map snd (Map_set m k v)) \<subseteq> insert v (set (map snd m))"
proof (induction m)
  case Nil
  show ?case by simp
next
  case (Cons e m)
  obtain k' v' where e: "e = (k', v')"
    by (cases e)
  show ?case
  proof (cases "k' = k")
    case True
    then show ?thesis unfolding e by auto
  next
    case False
    with Cons.IH show ?thesis unfolding e by auto
  qed
qed

lemma new_Map_values_aux:
  "set (map snd (foldl (\<lambda>m (k, v). Map_set m k v) acc entries))
     \<subseteq> set (map snd acc) \<union> set (map snd entries)"
proof (induction entries arbitrary: acc)
  case Nil
  show ?case by simp
next
  case (Cons e entries)
  obtain k v where e: "e = (k, v)"
    by (cases e)
  from Cons.IH [of "Map_set acc k v"] Map_set_values [of acc k v]
  show ?case
    unfolding e by auto
qed

lemma new_Map_values: "set (Map_values (new_Map entries)) \<subseteq> set (map snd entries)"
  using new_Map_values_aux [of "[]" entries] by (simp add: Map_values_def new_Map_def)

lemma doctor_patients_treated:
  assumes "p \<in> set (doctor_patients u d dr)"
  shows "\<exists>a \<in> set (db.appointments d).
           appointment.doctor_id a = doctor.id' dr \<and> appointment.patient_id a = patient_option.id' p"
proof -
  let ?rows = "filter (\<lambda>a. appointment.doctor_id a = doctor.id' dr) (visible_appointments u d)"
  let ?embed = "\<lambda>a. map_option to_patient_option (embed_patients u d (appointment.patient_id a))"
  from assms have "p \<in> set (Map_values (new_Map
      (map (\<lambda>p. (patient_option.id' p, p)) (List.map_filter ?embed ?rows))))"
    by (simp add: doctor_patients_def)
  with new_Map_values have "p \<in> set (List.map_filter ?embed ?rows)"
    by fastforce
  then obtain a where a: "a \<in> set ?rows" and "?embed a = Some p"
    by (blast dest: in_set_map_filterD)
  then obtain pt pp where e: "embed_patients u d (appointment.patient_id a) = Some (pt, pp)"
    and p: "p = to_patient_option (pt, pp)"
    by auto
  from embed_patients_SomeD [OF e] p have "patient_option.id' p = appointment.patient_id a"
    by (simp add: to_patient_option_def)
  moreover from a have "a \<in> set (db.appointments d)" "appointment.doctor_id a = doctor.id' dr"
    by (simp_all add: visible_appointments_def)
  ultimately show ?thesis
    by auto
qed

lemma own_doctor_SomeD:
  assumes "own_doctor s d = Some dr" and "userProfile s = Some up"
  shows "dr \<in> set (db.doctors d) \<and> doctor.profile_id dr = profile.id' up"
proof -
  from assms have "filter (\<lambda>dr. doctor.profile_id dr = profile.id' up) (visible_doctors (uid s) d) = [dr]"
    by (simp add: own_doctor_def single_SomeD)
  then have "dr \<in> set (filter (\<lambda>dr. doctor.profile_id dr = profile.id' up) (visible_doctors (uid s) d))"
    by simp
  then show ?thesis
    by (simp add: visible_doctors_def)
qed

lemma record_insert_carries_own_doctor:
  assumes "Store (Insert_medical_records r)
      \<in> set (snd (snd (MedicalRecords_handleSubmit ins ok today s d pg)))"
    and "userProfile s = Some up"
  shows "\<exists>dr \<in> set (db.doctors d).
           doctor.profile_id dr = profile.id' up \<and> medical_record_insert.doctor_id r = doctor.id' dr"
proof (cases "own_doctor s d")
  case None
  with assms(1) show ?thesis
    by (simp add: MedicalRecords_handleSubmit_None)
next
  case (Some dr)
  have "r = medical_record_payload dr (recordForm pg)"
  proof (cases "ins (medical_record_payload dr (recordForm pg)) d")
    case (Inl err)
    with assms(1) Some show ?thesis
      by (simp add: MedicalRecords_handleSubmit_Inl [where err = err])
  next
    case (Inr d')
    with assms(1) Some show ?thesis
      by (auto simp: MedicalRecords_handleSubmit_Inr [where d' = d'] dest: fetchMedicalRecords_stores)
  qed
  then have "medical_record_insert.doctor_id r = doctor.id' dr"
    by (simp add: medical_record_payload_def)
  with own_doctor_SomeD [OF Some assms(2)] show ?thesis
    by auto
qed

end
